theory Spec2Isabelle
  imports Main
begin

section \<open>Strings and numbers of the JavaScript runtime\<close>

text \<open>
  The connector (src/connector.js) runs on Node. Its strings are modelled as HOL strings:
  byte strings, read as the UTF-8 encoding of a well-formed JavaScript string.
\<close>

abbreviation DQ :: char where "DQ \<equiv> CHR 0x22"
abbreviation SQ :: char where "SQ \<equiv> CHR 0x27"
abbreviation BSL :: char where "BSL \<equiv> CHR 0x5C"
abbreviation NL :: char where "NL \<equiv> CHR 0x0A"

text \<open>\<^verbatim>\<open>Array.prototype.join\<close> on an array of strings.\<close>

fun join_with :: "string \<Rightarrow> string list \<Rightarrow> string" where
  "join_with sep [] = []"
| "join_with sep [x] = x"
| "join_with sep (x # y # ys) = x @ sep @ join_with sep (y # ys)"

fun startsWith :: "string \<Rightarrow> string \<Rightarrow> bool" where
  "startsWith s [] = True"
| "startsWith [] (c # cs) = False"
| "startsWith (x # xs) (c # cs) = (x = c \<and> startsWith xs cs)"

text \<open>\<^verbatim>\<open>String.prototype.includes\<close>.\<close>

fun str_includes :: "string \<Rightarrow> string \<Rightarrow> bool" where
  "str_includes [] sub = (sub = [])"
| "str_includes (x # xs) sub = (startsWith (x # xs) sub \<or> str_includes xs sub)"

text \<open>
  \<^verbatim>\<open>String.prototype.trim\<close> strips the white space and the line terminators of
  ECMAScript from both ends: U+0009 to U+000D, U+0020, U+00A0, U+1680, U+2000 to U+200A,
  U+2028, U+2029, U+202F, U+205F, U+3000 and U+FEFF, here in their UTF-8 encodings.
\<close>

definition white_space :: "string list" where
  "white_space =
     [[CHR 0x09], [CHR 0x0A], [CHR 0x0B], [CHR 0x0C], [CHR 0x0D], [CHR 0x20],
      [CHR 0xC2, CHR 0xA0],
      [CHR 0xE1, CHR 0x9A, CHR 0x80],
      [CHR 0xE2, CHR 0x80, CHR 0x80], [CHR 0xE2, CHR 0x80, CHR 0x81],
      [CHR 0xE2, CHR 0x80, CHR 0x82], [CHR 0xE2, CHR 0x80, CHR 0x83],
      [CHR 0xE2, CHR 0x80, CHR 0x84], [CHR 0xE2, CHR 0x80, CHR 0x85],
      [CHR 0xE2, CHR 0x80, CHR 0x86], [CHR 0xE2, CHR 0x80, CHR 0x87],
      [CHR 0xE2, CHR 0x80, CHR 0x88], [CHR 0xE2, CHR 0x80, CHR 0x89],
      [CHR 0xE2, CHR 0x80, CHR 0x8A],
      [CHR 0xE2, CHR 0x80, CHR 0xA8], [CHR 0xE2, CHR 0x80, CHR 0xA9],
      [CHR 0xE2, CHR 0x80, CHR 0xAF],
      [CHR 0xE2, CHR 0x81, CHR 0x9F],
      [CHR 0xE3, CHR 0x80, CHR 0x80],
      [CHR 0xEF, CHR 0xBB, CHR 0xBF]]"

text \<open>
  Stripping, from the head of \<open>s\<close>, every leading occurrence of one of the sequences
  \<open>seqs\<close>. An empty sequence strips nothing.
\<close>

function strip_leading :: "string list \<Rightarrow> string \<Rightarrow> string" where
  "strip_leading seqs s =
     (case find (\<lambda>p. p \<noteq> [] \<and> startsWith s p) seqs of
        None \<Rightarrow> s
      | Some p \<Rightarrow> strip_leading seqs (drop (length p) s))"
  by pat_completeness auto
termination
proof (relation "measure (\<lambda>(seqs, s). length s)")
  show "wf (measure (\<lambda>(seqs, s). length s))"
    by simp
next
  fix seqs :: "string list" and s p :: string
  assume "find (\<lambda>p. p \<noteq> [] \<and> startsWith s p) seqs = Some p"
  then have "p \<noteq> []" and "startsWith s p"
    by (auto simp: find_Some_iff)
  then have "s \<noteq> []"
    by (cases s; cases p) auto
  with \<open>p \<noteq> []\<close> show "((seqs, drop (length p) s), (seqs, s)) \<in> measure (\<lambda>(seqs, s). length s)"
    by simp
qed

declare strip_leading.simps [simp del]

definition trim :: "string \<Rightarrow> string" where
  "trim s = rev (strip_leading (map rev white_space) (rev (strip_leading white_space s)))"

definition digit_char :: "nat \<Rightarrow> char" where
  "digit_char n = ''0123456789'' ! n"

fun show_nat :: "nat \<Rightarrow> string" where
  "show_nat n = (if n < 10 then [digit_char n] else show_nat (n div 10) @ [digit_char (n mod 10)])"

declare show_nat.simps [simp del]

text \<open>
  The natural numbers the connector itself prints are the one-based index of a listed
  repository and the length of an array, both below \<open>2^32\<close>: \<open>show_nat\<close> is their
  decimal text.
\<close>

section \<open>Values, errors and conversions\<close>

text \<open>
  A number of JavaScript is a double. The connector does no arithmetic on the numbers it
  receives: it converts them to strings, serializes them and tests their truthiness. A
  number is therefore represented by the text that \<^verbatim>\<open>Number.prototype.toString\<close> gives
  it (\<^verbatim>\<open>7\<close>, \<^verbatim>\<open>0.5\<close>, \<^verbatim>\<open>1e+21\<close>, \<^verbatim>\<open>Infinity\<close>), which determines the number up to
  the sign of zero. A number is falsy when it is zero or \<^verbatim>\<open>NaN\<close>, and
  \<^verbatim>\<open>JSON.stringify\<close> prints a number that is not finite as \<^verbatim>\<open>null\<close>.
\<close>

datatype js_number = Number (number_text: string)

definition number_truthy :: "js_number \<Rightarrow> bool" where
  "number_truthy n = (number_text n \<noteq> ''0'' \<and> number_text n \<noteq> ''NaN'')"

definition number_json :: "js_number \<Rightarrow> string" where
  "number_json n =
     (if number_text n \<in> set [''Infinity'', ''-Infinity'', ''NaN''] then ''null''
      else number_text n)"

text \<open>
  A parsed JSON value. An object holds its own properties in enumeration order. A
  JavaScript value that may be \<^verbatim>\<open>undefined\<close> is a \<open>json option\<close>, with \<open>None\<close> for
  \<^verbatim>\<open>undefined\<close>.
\<close>

datatype json =
  JNull
| JBool bool
| JNum js_number
| JStr string
| JArr "json list"
| JObj "(string \<times> json) list"

type_synonym jsval = "json option"

text \<open>
  What a \<^verbatim>\<open>throw\<close> carries: the errors of the runtime (a \<^verbatim>\<open>TypeError\<close>, the
  \<^verbatim>\<open>SyntaxError\<close> of \<^verbatim>\<open>JSON.parse\<close>) and the error of a failed or timed-out
  \<^verbatim>\<open>execSync\<close>, each with its message.
\<close>

datatype js_error = TypeError string | SyntaxError string | ExecError string

fun error_message :: "js_error \<Rightarrow> string" where
  "error_message (TypeError m) = m"
| "error_message (SyntaxError m) = m"
| "error_message (ExecError m) = m"

text \<open>Sequencing of computations that may throw: the first error ends the computation.\<close>

definition thenE :: "'e + 'a \<Rightarrow> ('a \<Rightarrow> 'e + 'b) \<Rightarrow> 'e + 'b" where
  "thenE m f = (case m of Inl e \<Rightarrow> Inl e | Inr x \<Rightarrow> f x)"

fun mapE :: "('a \<Rightarrow> 'e + 'b) \<Rightarrow> 'a list \<Rightarrow> 'e + 'b list" where
  "mapE f [] = Inr []"
| "mapE f (x # xs) = thenE (f x) (\<lambda>y. thenE (mapE f xs) (\<lambda>ys. Inr (y # ys)))"

text \<open>
  Truthiness, as \<^verbatim>\<open>if (v)\<close>, \<^verbatim>\<open>!!v\<close> and the operator \<^verbatim>\<open>||\<close> read it.
\<close>

fun truthy :: "jsval \<Rightarrow> bool" where
  "truthy None = False"
| "truthy (Some JNull) = False"
| "truthy (Some (JBool b)) = b"
| "truthy (Some (JNum n)) = number_truthy n"
| "truthy (Some (JStr s)) = (s \<noteq> [])"
| "truthy (Some (JArr xs)) = True"
| "truthy (Some (JObj kvs)) = True"

text \<open>\<^verbatim>\<open>Array.isArray\<close>.\<close>

fun isArray :: "json \<Rightarrow> bool" where
  "isArray (JArr xs) = True"
| "isArray v = False"

definition js_or :: "jsval \<Rightarrow> jsval \<Rightarrow> jsval" where
  "js_or a b = (if truthy a then a else b)"

text \<open>
  Reading a property \<^verbatim>\<open>v.k\<close> of a parsed value. On \<^verbatim>\<open>null\<close> the read throws; an
  object gives its own property; every other value gives \<^verbatim>\<open>undefined\<close> (none of the
  names the connector reads is a property of a prototype).
\<close>

definition get_prop :: "json \<Rightarrow> string \<Rightarrow> js_error + jsval" where
  "get_prop v k =
     (case v of
        JNull \<Rightarrow> Inl (TypeError (''Cannot read properties of null (reading '' @ [SQ] @ k @ [SQ] @ '')''))
      | JObj kvs \<Rightarrow> Inr (map_of kvs k)
      | _ \<Rightarrow> Inr None)"

text \<open>
  Conversion to a string, as a template literal \<^verbatim>\<open>`${v}`\<close> and \<^verbatim>\<open>String(v)\<close> do it.
  An array joins its elements with commas, \<^verbatim>\<open>null\<close> elements as the empty string. A
  plain object prints as \<^verbatim>\<open>[object Object]\<close>, unless an own property shadows
  \<^verbatim>\<open>toString\<close>: parsed JSON holds no function, so the conversion then throws.
\<close>

fun toString :: "json \<Rightarrow> js_error + string"
  and toString_elems :: "json list \<Rightarrow> js_error + string list" where
  "toString JNull = Inr ''null''"
| "toString (JBool b) = Inr (if b then ''true'' else ''false'')"
| "toString (JNum n) = Inr (number_text n)"
| "toString (JStr s) = Inr s"
| "toString (JArr xs) =
     (case toString_elems xs of Inl e \<Rightarrow> Inl e | Inr ss \<Rightarrow> Inr (join_with '','' ss))"
| "toString (JObj kvs) =
     (if ''toString'' \<in> set (map fst kvs)
      then Inl (TypeError ''Cannot convert object to primitive value'')
      else Inr ''[object Object]'')"
| "toString_elems [] = Inr []"
| "toString_elems (x # xs) =
     (case (if x = JNull then Inr [] else toString x) of
        Inl e \<Rightarrow> Inl e
      | Inr s \<Rightarrow> (case toString_elems xs of Inl e \<Rightarrow> Inl e | Inr ss \<Rightarrow> Inr (s # ss)))"

definition js_String :: "jsval \<Rightarrow> js_error + string" where
  "js_String v = (case v of None \<Rightarrow> Inr ''undefined'' | Some j \<Rightarrow> toString j)"

section \<open>JSON serialization\<close>

definition hex_lower :: "nat \<Rightarrow> char" where
  "hex_lower n = ''0123456789abcdef'' ! n"

definition escape_char :: "char \<Rightarrow> string" where
  "escape_char c =
     (if c = DQ then [BSL, DQ]
      else if c = BSL then [BSL, BSL]
      else if c = CHR 0x08 then [BSL, CHR ''b'']
      else if c = CHR 0x0C then [BSL, CHR ''f'']
      else if c = CHR 0x0A then [BSL, CHR ''n'']
      else if c = CHR 0x0D then [BSL, CHR ''r'']
      else if c = CHR 0x09 then [BSL, CHR ''t'']
      else if (of_char c :: nat) < 32
        then [BSL] @ ''u00'' @ [hex_lower (of_char c div 16), hex_lower (of_char c mod 16)]
      else [c])"

definition quote :: "string \<Rightarrow> string" where
  "quote s = [DQ] @ concat (map escape_char s) @ [DQ]"

text \<open>\<^verbatim>\<open>JSON.stringify(v)\<close>.\<close>

fun JSON_stringify :: "json \<Rightarrow> string" where
  "JSON_stringify JNull = ''null''"
| "JSON_stringify (JBool b) = (if b then ''true'' else ''false'')"
| "JSON_stringify (JNum n) = number_json n"
| "JSON_stringify (JStr s) = quote s"
| "JSON_stringify (JArr xs) = ''['' @ join_with '','' (map JSON_stringify xs) @ '']''"
| "JSON_stringify (JObj kvs) =
     ''{'' @ join_with '','' (map (\<lambda>kv. quote (fst kv) @ '':'' @ JSON_stringify (snd kv)) kvs) @ ''}''"

text \<open>\<^verbatim>\<open>JSON.stringify(v, null, 2)\<close>, at the indentation \<open>ind\<close>.\<close>

fun stringify_indent :: "string \<Rightarrow> json \<Rightarrow> string" where
  "stringify_indent ind JNull = ''null''"
| "stringify_indent ind (JBool b) = (if b then ''true'' else ''false'')"
| "stringify_indent ind (JNum n) = number_json n"
| "stringify_indent ind (JStr s) = quote s"
| "stringify_indent ind (JArr xs) =
     (if xs = [] then ''[]''
      else ''['' @ [NL] @ (ind @ ''  '')
        @ join_with ('','' @ [NL] @ (ind @ ''  '')) (map (stringify_indent (ind @ ''  '')) xs)
        @ [NL] @ ind @ '']'')"
| "stringify_indent ind (JObj kvs) =
     (if kvs = [] then ''{}''
      else ''{'' @ [NL] @ (ind @ ''  '')
        @ join_with ('','' @ [NL] @ (ind @ ''  ''))
            (map (\<lambda>kv. quote (fst kv) @ '': '' @ stringify_indent (ind @ ''  '') (snd kv)) kvs)
        @ [NL] @ ind @ ''}'')"

definition JSON_stringify_2 :: "json \<Rightarrow> string" where
  "JSON_stringify_2 v = stringify_indent [] v"

text \<open>
  An object literal of the connector, whose properties may be \<^verbatim>\<open>undefined\<close>:
  \<^verbatim>\<open>JSON.stringify\<close> leaves the undefined ones out.
\<close>

fun defined_props :: "(string \<times> jsval) list \<Rightarrow> (string \<times> json) list" where
  "defined_props [] = []"
| "defined_props ((k, None) # ps) = defined_props ps"
| "defined_props ((k, Some v) # ps) = (k, v) # defined_props ps"

definition stringify_object :: "(string \<times> jsval) list \<Rightarrow> string" where
  "stringify_object props = JSON_stringify (JObj (defined_props props))"

section \<open>The query string\<close>

text \<open>
  \<^verbatim>\<open>URLSearchParams\<close>: a list of name-value pairs. \<^verbatim>\<open>set\<close> overwrites the first pair of
  the name and drops the others, or appends; \<^verbatim>\<open>toString\<close> is the form-urlencoded
  serialization of the bytes.
\<close>

definition hex_upper :: "nat \<Rightarrow> char" where
  "hex_upper n = ''0123456789ABCDEF'' ! n"

definition is_alnum :: "char \<Rightarrow> bool" where
  "is_alnum c =
     (let n = (of_char c :: nat)
      in (48 \<le> n \<and> n \<le> 57) \<or> (65 \<le> n \<and> n \<le> 90) \<or> (97 \<le> n \<and> n \<le> 122))"

definition urlencode_byte :: "char \<Rightarrow> string" where
  "urlencode_byte c =
     (if is_alnum c \<or> c \<in> set ''*-._'' then [c]
      else if c = CHR '' '' then ''+''
      else [CHR ''%'', hex_upper (of_char c div 16), hex_upper (of_char c mod 16)])"

definition urlencode :: "string \<Rightarrow> string" where
  "urlencode s = concat (map urlencode_byte s)"

fun searchParams_set :: "(string \<times> string) list \<Rightarrow> string \<Rightarrow> string \<Rightarrow> (string \<times> string) list" where
  "searchParams_set [] k v = [(k, v)]"
| "searchParams_set (p # ps) k v =
     (if fst p = k then (k, v) # filter (\<lambda>q. fst q \<noteq> k) ps
      else p # searchParams_set ps k v)"

definition searchParams_toString :: "(string \<times> string) list \<Rightarrow> string" where
  "searchParams_toString sp =
     join_with ''&'' (map (\<lambda>p. urlencode (fst p) @ ''='' @ urlencode (snd p)) sp)"

section \<open>The world outside the process\<close>

text \<open>
  What the connector reads from outside: \<^verbatim>\<open>execSync\<close> runs a command line in a shell
  and returns its output or throws (failure, timeout); \<^verbatim>\<open>JSON.parse\<close> parses a
  response body or throws; \<^verbatim>\<open>process.env\<close> holds the environment variables. Every
  function that calls \<^verbatim>\<open>execSync\<close> returns, beside its result, the list of the command
  lines it ran.
\<close>

record world =
  execSync :: "string \<Rightarrow> js_error + string"
  JSON_parse :: "string \<Rightarrow> js_error + json"
  env :: "string \<Rightarrow> string option"

text \<open>
  A mocked world, for scenarios: every command has the outcome \<open>outcome\<close>, every body parses
  to \<open>parsed\<close>, and no environment variable is set.
\<close>

definition mock_world :: "js_error + string \<Rightarrow> js_error + json \<Rightarrow> world" where
  "mock_world outcome parsed = \<lparr>execSync = (\<lambda>cmd. outcome), JSON_parse = (\<lambda>body. parsed), env = (\<lambda>name. None)\<rparr>"

section \<open>Detection of the git remote\<close>

text \<open>
  The regular expression \<^verbatim>\<open>/[/:]([^/]+)\/([^/.]+)(?:\.git)?$/\<close> of
  \<^verbatim>\<open>detectGitConfig\<close>. A greedy \<^verbatim>\<open>+\<close> tries the longest run first and gives back one
  character at a time; \<^verbatim>\<open>match\<close> tries the start positions from the left.
\<close>

fun splits_greedy :: "(char \<Rightarrow> bool) \<Rightarrow> string \<Rightarrow> (string \<times> string) list" where
  "splits_greedy P [] = []"
| "splits_greedy P (c # cs) =
     (if P c then map (\<lambda>ab. (c # fst ab, snd ab)) (splits_greedy P cs) @ [([c], cs)] else [])"

fun first_match :: "('a \<Rightarrow> 'b option) \<Rightarrow> 'a list \<Rightarrow> 'b option" where
  "first_match f [] = None"
| "first_match f (x # xs) = (case f x of Some y \<Rightarrow> Some y | None \<Rightarrow> first_match f xs)"

definition match_tail :: "string \<Rightarrow> bool" where
  "match_tail s = (s = ''.git'' \<or> s = [])"

definition match_repo :: "string \<Rightarrow> string \<Rightarrow> (string \<times> string) option" where
  "match_repo g1 s =
     first_match (\<lambda>ab. if match_tail (snd ab) then Some (g1, fst ab) else None)
       (splits_greedy (\<lambda>x. x \<noteq> CHR ''/'' \<and> x \<noteq> CHR ''.'') s)"

definition match_owner :: "string \<Rightarrow> (string \<times> string) option" where
  "match_owner s =
     first_match
       (\<lambda>ab. case snd ab of [] \<Rightarrow> None
             | d # r \<Rightarrow> if d = CHR ''/'' then match_repo (fst ab) r else None)
       (splits_greedy (\<lambda>x. x \<noteq> CHR ''/'') s)"

definition match_here :: "string \<Rightarrow> (string \<times> string) option" where
  "match_here s =
     (case s of [] \<Rightarrow> None
      | c # r \<Rightarrow> if c = CHR ''/'' \<or> c = CHR '':'' then match_owner r else None)"

fun remote_match :: "string \<Rightarrow> (string \<times> string) option" where
  "remote_match [] = None"
| "remote_match (c # cs) =
     (case match_here (c # cs) of Some m \<Rightarrow> Some m | None \<Rightarrow> remote_match cs)"

text \<open>The object \<^verbatim>\<open>{ owner, repo, remoteUrl }\<close> of a successful detection.\<close>

record git_config =
  git_owner :: string
  git_repo :: string
  remoteUrl :: string

definition detectGitConfig :: "world \<Rightarrow> git_config option \<times> string list" where
  "detectGitConfig w =
     (let cmd = ''git remote get-url origin'' in
      (case execSync w cmd of
         Inl e \<Rightarrow> None
       | Inr out \<Rightarrow>
           (let url = trim out in
            case remote_match url of
              Some m \<Rightarrow> Some \<lparr>git_owner = fst m, git_repo = snd m, remoteUrl = url\<rparr>
            | None \<Rightarrow> None),
       [cmd]))"

section \<open>The configuration\<close>

text \<open>
  The object \<^verbatim>\<open>{ apiUrl, token, isGitHub, owner, repo }\<close> of \<^verbatim>\<open>getApiConfig\<close>; its
  \<^verbatim>\<open>owner\<close> and \<^verbatim>\<open>repo\<close> are the fields \<open>defaultOwner\<close> and \<open>defaultRepo\<close>.
\<close>

record config =
  apiUrl :: string
  token :: string
  isGitHub :: bool
  defaultOwner :: string
  defaultRepo :: string

text \<open>
  The configuration of the scenarios: the public GitHub endpoint, a token, and no default
  owner or repository.
\<close>

definition github_config :: "string \<Rightarrow> config" where
  "github_config tok =
     \<lparr>apiUrl = ''https://api.github.com'', token = tok, isGitHub = True,
      defaultOwner = [], defaultRepo = []\<rparr>"

text \<open>\<^verbatim>\<open>a || b\<close> on an environment variable or detected string \<open>a\<close> that may be undefined.\<close>

definition str_or :: "string option \<Rightarrow> string \<Rightarrow> string" where
  "str_or a b = (case a of None \<Rightarrow> b | Some s \<Rightarrow> if s \<noteq> [] then s else b)"

definition getApiConfig :: "world \<Rightarrow> config" where
  "getApiConfig w =
     (let apiUrl = str_or (env w ''GITEA_API_URL'') ''https://api.github.com'';
          token = str_or (env w ''GITEA_TOKEN'') (str_or (env w ''GITHUB_TOKEN'') []);
          gitConfig = fst (detectGitConfig w);
          isGitHub = (str_includes apiUrl ''github.com'' \<or>
            (case gitConfig of None \<Rightarrow> False | Some g \<Rightarrow> str_includes (remoteUrl g) ''github.com''))
      in \<lparr>apiUrl = apiUrl, token = token, isGitHub = isGitHub,
          defaultOwner = str_or (map_option git_owner gitConfig) (str_or (env w ''GITEA_OWNER'') []),
          defaultRepo = str_or (map_option git_repo gitConfig) (str_or (env w ''GITEA_REPO'') [])\<rparr>)"

section \<open>The HTTP request\<close>

text \<open>
  \<^verbatim>\<open>curlRequest\<close>: the argument list of \<^verbatim>\<open>curl\<close>, the command line made of it (an
  argument with a space or a brace goes between single quotes), the run and the parse.
  The body \<open>data\<close> is \<open>None\<close> for \<^verbatim>\<open>null\<close> and an object literal otherwise.
\<close>

definition curl_args ::
  "string \<Rightarrow> string \<Rightarrow> (string \<times> jsval) list option \<Rightarrow> string \<Rightarrow> bool \<Rightarrow> string list" where
  "curl_args method url data tok gh =
     [''curl'', ''-s'', ''-X'', method, ''--max-time'', ''30'']
     @ [''-H'', ''Accept: application/json'']
     @ [''-H'', ''Content-Type: application/json'']
     @ (if tok \<noteq> []
        then [''-H'', ''Authorization: '' @ (if gh then ''Bearer '' @ tok else ''token '' @ tok)]
        else [])
     @ (case data of None \<Rightarrow> [] | Some d \<Rightarrow> [''-d'', stringify_object d])
     @ [url]"

definition shell_word :: "string \<Rightarrow> string" where
  "shell_word a = (if CHR '' '' \<in> set a \<or> CHR ''{'' \<in> set a then [SQ] @ a @ [SQ] else a)"

definition curl_cmd ::
  "string \<Rightarrow> string \<Rightarrow> (string \<times> jsval) list option \<Rightarrow> string \<Rightarrow> bool \<Rightarrow> string" where
  "curl_cmd method url data tok gh = join_with '' '' (map shell_word (curl_args method url data tok gh))"

definition curlRequest ::
  "world \<Rightarrow> string \<Rightarrow> string \<Rightarrow> (string \<times> jsval) list option \<Rightarrow> string \<Rightarrow> bool
    \<Rightarrow> (js_error + json) \<times> string list" where
  "curlRequest w method url data tok gh =
     (let cmd = curl_cmd method url data tok gh
      in (thenE (execSync w cmd) (JSON_parse w), [cmd]))"

text \<open>\<^verbatim>\<open>apiCall\<close>: the loop over the entries of \<open>params\<close>, then the request.\<close>

fun add_params :: "(string \<times> jsval) list \<Rightarrow> (string \<times> string) list \<Rightarrow> js_error + (string \<times> string) list" where
  "add_params [] sp = Inr sp"
| "add_params ((k, v) # rest) sp =
     (if v \<noteq> Some JNull \<and> v \<noteq> None
      then thenE (js_String v) (\<lambda>s. add_params rest (searchParams_set sp k s))
      else add_params rest sp)"

definition apiCall ::
  "world \<Rightarrow> config \<Rightarrow> string \<Rightarrow> string \<Rightarrow> (string \<times> jsval) list option
    \<Rightarrow> (string \<times> jsval) list option \<Rightarrow> (js_error + json) \<times> string list" where
  "apiCall w cfg method endpoint data params =
     (let url = apiUrl cfg @ endpoint in
      case params of
        None \<Rightarrow> curlRequest w method url data (token cfg) (isGitHub cfg)
      | Some ps \<Rightarrow>
          (case add_params ps [] of
             Inl e \<Rightarrow> (Inl e, [])
           | Inr sp \<Rightarrow>
               (let qs = searchParams_toString sp
                in curlRequest w method (if qs \<noteq> [] then url @ ''?'' @ qs else url) data
                     (token cfg) (isGitHub cfg))))"

section \<open>The shell\<close>

text \<open>
  \<^verbatim>\<open>execSync\<close> runs its command line with \<^verbatim>\<open>/bin/sh -c\<close>. The model covers the fragment
  of the shell command language that a well-formed command line of \<^verbatim>\<open>curlRequest\<close> falls
  into: one simple command, whose words are separated by spaces and are made of plain
  characters, of text between single quotes (literal up to the next single quote) and of
  text between double quotes (literal, but for \<^verbatim>\<open>$\<close>, the backquote and the backslash). The
  result is the argument vector the command is started with, a syntax error when a quote
  is left open, and \<open>Unsupported\<close> for everything outside the fragment: operators such as
  \<^verbatim>\<open>&\<close> and \<^verbatim>\<open>;\<close>, expansions, patterns, and a reserved word in the place of the command.
\<close>

definition sh_plain :: "char \<Rightarrow> bool" where
  "sh_plain c = (is_alnum c \<or> c \<in> set ''-_./:,+@%'')"

datatype sh_state = Bare | Single | Double

datatype sh_parse = Argv "string list" | Syntax_error | Unsupported

definition put_char :: "string option \<Rightarrow> char \<Rightarrow> string option" where
  "put_char cur c = Some ((case cur of None \<Rightarrow> [] | Some w \<Rightarrow> w) @ [c])"

definition open_word :: "string option \<Rightarrow> string option" where
  "open_word cur = Some (case cur of None \<Rightarrow> [] | Some w \<Rightarrow> w)"

definition end_word :: "string list \<Rightarrow> string option \<Rightarrow> string list" where
  "end_word ws cur = (case cur of None \<Rightarrow> ws | Some w \<Rightarrow> ws @ [w])"

fun sh_scan :: "sh_state \<Rightarrow> string list \<Rightarrow> string option \<Rightarrow> string \<Rightarrow> sh_parse" where
  "sh_scan st ws cur [] = (if st = Bare then Argv (end_word ws cur) else Syntax_error)"
| "sh_scan Bare ws cur (c # cs) =
     (if c = CHR '' '' then sh_scan Bare (end_word ws cur) None cs
      else if c = SQ then sh_scan Single ws (open_word cur) cs
      else if c = DQ then sh_scan Double ws (open_word cur) cs
      else if sh_plain c then sh_scan Bare ws (put_char cur c) cs
      else Unsupported)"
| "sh_scan Single ws cur (c # cs) =
     (if c = SQ then sh_scan Bare ws cur cs else sh_scan Single ws (put_char cur c) cs)"
| "sh_scan Double ws cur (c # cs) =
     (if c = DQ then sh_scan Bare ws cur cs
      else if c = CHR ''$'' \<or> c = CHR 0x60 \<or> c = BSL then Unsupported
      else sh_scan Double ws (put_char cur c) cs)"

definition sh_reserved :: "string list" where
  "sh_reserved = [''!'', ''{'', ''}'', ''case'', ''do'', ''done'', ''elif'', ''else'', ''esac'', ''fi'',
     ''for'', ''if'', ''in'', ''then'', ''until'', ''while'', ''function'', ''select'', ''time'']"

definition sh_command :: "string \<Rightarrow> sh_parse" where
  "sh_command line =
     (case sh_scan Bare [] None line of
        Argv ws \<Rightarrow> (case ws of [] \<Rightarrow> Argv [] | w # rest \<Rightarrow> if w \<in> set sh_reserved then Unsupported else Argv ws)
      | r \<Rightarrow> r)"

text \<open>
  An argument that the quoting of \<^verbatim>\<open>curlRequest\<close> brings through the shell unchanged:
  one that is quoted and holds no single quote, or one that is left bare, is not empty
  and holds plain characters only.
\<close>

definition word_ok :: "string \<Rightarrow> bool" where
  "word_ok a =
     (if CHR '' '' \<in> set a \<or> CHR ''{'' \<in> set a then SQ \<notin> set a
      else a \<noteq> [] \<and> list_all sh_plain a)"

text \<open>
  The characters of the names of owners and repositories on GitHub and Gitea: letters,
  digits, hyphen, underscore and dot.
\<close>

definition name_char :: "char \<Rightarrow> bool" where
  "name_char c = (is_alnum c \<or> c \<in> set ''-_.'')"

section \<open>The tools\<close>

text \<open>
  A tool result: the content blocks and the error flag (absent in the source where it is
  \<open>False\<close> here). A handler returns its result or throws, and the command lines it ran.
  The arguments of a handler are the validated ones: an optional argument is an option, the
  state of an issue is one of the three enumerated names.
\<close>

datatype content_block = TextBlock string

record tool_result =
  content :: "content_block list"
  isError :: bool

type_synonym handler_result = "(js_error + tool_result) \<times> string list"

datatype issue_state = Open | Closed | All

fun state_name :: "issue_state \<Rightarrow> string" where
  "state_name Open = ''open''"
| "state_name Closed = ''closed''"
| "state_name All = ''all''"

text \<open>\<^verbatim>\<open>`${v.message || JSON.stringify(v)}`\<close>, the text of the three listing tools' API errors.\<close>

definition message_or_body :: "json \<Rightarrow> js_error + string" where
  "message_or_body v =
     thenE (get_prop v ''message'') (\<lambda>m. js_String (js_or m (Some (JStr (JSON_stringify v)))))"

text \<open>\<^verbatim>\<open>`${v.k}`\<close> and \<^verbatim>\<open>`${v.k || d}`\<close>.\<close>

definition prop_text :: "json \<Rightarrow> string \<Rightarrow> js_error + string" where
  "prop_text v k = thenE (get_prop v k) js_String"

definition prop_text_or :: "json \<Rightarrow> string \<Rightarrow> json \<Rightarrow> js_error + string" where
  "prop_text_or v k d = thenE (get_prop v k) (\<lambda>x. js_String (js_or x (Some d)))"

subsection \<open>list_repos\<close>

definition format_repo :: "nat \<Rightarrow> json \<Rightarrow> js_error + string" where
  "format_repo i r =
     thenE (get_prop r ''private'') (\<lambda>private.
     thenE (get_prop r ''language'') (\<lambda>language.
     thenE (get_prop r ''description'') (\<lambda>description.
     thenE (get_prop r ''stargazers_count'') (\<lambda>stargazers_count.
     thenE (get_prop r ''forks_count'') (\<lambda>forks_count.
       (let visibility = (if truthy private then ''Private'' else ''Public'');
            lang = js_or language (Some (JStr ''N/A''));
            desc = js_or description (Some (JStr ''No description''));
            stars = js_or stargazers_count (Some (JNum (Number ''0'')));
            forks = js_or forks_count (Some (JNum (Number ''0'')))
        in
        thenE (prop_text r ''full_name'') (\<lambda>t_full_name.
        thenE (js_String lang) (\<lambda>t_lang.
        thenE (js_String stars) (\<lambda>t_stars.
        thenE (js_String forks) (\<lambda>t_forks.
        thenE (js_String desc) (\<lambda>t_desc.
        thenE (prop_text r ''html_url'') (\<lambda>t_html_url.
        thenE (prop_text_or r ''default_branch'' (JStr ''N/A'')) (\<lambda>t_default_branch.
        thenE (prop_text_or r ''created_at'' (JStr ''N/A'')) (\<lambda>t_created_at.
        thenE (prop_text_or r ''updated_at'' (JStr ''N/A'')) (\<lambda>t_updated_at.
          Inr (join_with [NL]
            [show_nat (i + 1) @ ''. '' @ t_full_name @ '' ['' @ visibility @ '']'',
             ''   Language: '' @ t_lang @ '' | Stars: '' @ t_stars @ '' | Forks: '' @ t_forks,
             ''   Description: '' @ t_desc,
             ''   URL: '' @ t_html_url,
             ''   Default Branch: '' @ t_default_branch,
             ''   Created: '' @ t_created_at,
             ''   Updated: '' @ t_updated_at]))))))))))))))))"

definition list_repos_result :: "json \<Rightarrow> js_error + tool_result" where
  "list_repos_result repos =
     (case repos of
        JArr rs \<Rightarrow>
          thenE (mapE (\<lambda>ir. format_repo (fst ir) (snd ir)) (enumerate 0 rs)) (\<lambda>lines.
            (let formatted = join_with [NL, NL] lines;
                 found = ''Found '' @ show_nat (length rs) @ '' repositories:'' @ [NL, NL] @ formatted
             in Inr \<lparr>content = [TextBlock (if found \<noteq> [] then found else ''No repositories found.'')],
                     isError = False\<rparr>))
      | _ \<Rightarrow>
          thenE (message_or_body repos) (\<lambda>m.
            Inr \<lparr>content = [TextBlock (''API Error: '' @ m)], isError = True\<rparr>))"

definition list_repos ::
  "world \<Rightarrow> config \<Rightarrow> string option \<Rightarrow> js_number option \<Rightarrow> js_number option
    \<Rightarrow> handler_result" where
  "list_repos w cfg org page per_page =
     (let page = (case page of None \<Rightarrow> Number ''1'' | Some p \<Rightarrow> p);
          per_page = (case per_page of None \<Rightarrow> Number ''100'' | Some p \<Rightarrow> p);
          targetOrg = str_or org (defaultOwner cfg);
          endpoint =
            (if targetOrg \<noteq> [] then Some (''/orgs/'' @ targetOrg @ ''/repos'')
             else if token cfg \<noteq> [] then Some ''/user/repos''
             else None)
      in
      case endpoint of
        None \<Rightarrow>
          (Inr \<lparr>content = [TextBlock
              ''Error: No org specified and no auth token. Provide an org name or set GITEA_TOKEN.''],
             isError = True\<rparr>, [])
      | Some ep \<Rightarrow>
          (let call = apiCall w cfg ''GET'' ep None
                 (Some [(''page'', Some (JNum page)), (''per_page'', Some (JNum per_page)),
                        (''limit'', Some (JNum per_page)), (''type'', Some (JStr ''all''))])
           in (thenE (fst call) list_repos_result, snd call)))"

subsection \<open>get_repo\<close>

definition get_repo :: "world \<Rightarrow> config \<Rightarrow> string \<Rightarrow> string \<Rightarrow> handler_result" where
  "get_repo w cfg owner repo =
     (let call = apiCall w cfg ''GET'' (''/repos/'' @ owner @ ''/'' @ repo) None None
      in (thenE (fst call) (\<lambda>r. Inr \<lparr>content = [TextBlock (JSON_stringify_2 r)], isError = False\<rparr>),
          snd call))"

subsection \<open>list_issues\<close>

definition format_issue :: "json \<Rightarrow> js_error + string" where
  "format_issue i =
     thenE (prop_text i ''number'') (\<lambda>t_number.
     thenE (prop_text i ''title'') (\<lambda>t_title.
     thenE (prop_text i ''state'') (\<lambda>t_state.
       Inr (''#'' @ t_number @ '': '' @ t_title @ '' ['' @ t_state @ '']''))))"

definition list_issues_result :: "json \<Rightarrow> js_error + tool_result" where
  "list_issues_result issues =
     (case issues of
        JArr xs \<Rightarrow>
          thenE (mapE format_issue xs) (\<lambda>lines.
            (let formatted = join_with [NL] lines
             in Inr \<lparr>content = [TextBlock (if formatted \<noteq> [] then formatted else ''No issues found.'')],
                     isError = False\<rparr>))
      | _ \<Rightarrow>
          thenE (message_or_body issues) (\<lambda>m.
            Inr \<lparr>content = [TextBlock (''Error: '' @ m)], isError = True\<rparr>))"

definition list_issues ::
  "world \<Rightarrow> config \<Rightarrow> string \<Rightarrow> string \<Rightarrow> issue_state option \<Rightarrow> js_number option
    \<Rightarrow> js_number option
    \<Rightarrow> handler_result" where
  "list_issues w cfg owner repo state page per_page =
     (let state = (case state of None \<Rightarrow> ''open'' | Some s \<Rightarrow> state_name s);
          page = (case page of None \<Rightarrow> Number ''1'' | Some p \<Rightarrow> p);
          per_page = (case per_page of None \<Rightarrow> Number ''20'' | Some p \<Rightarrow> p);
          call = apiCall w cfg ''GET'' (''/repos/'' @ owner @ ''/'' @ repo @ ''/issues'') None
                   (Some [(''state'', Some (JStr state)), (''page'', Some (JNum page)),
                          (''per_page'', Some (JNum per_page)), (''limit'', Some (JNum per_page))])
      in (thenE (fst call) list_issues_result, snd call))"

subsection \<open>list_branches\<close>

definition list_branches_result :: "json \<Rightarrow> js_error + tool_result" where
  "list_branches_result branches =
     (case branches of
        JArr bs \<Rightarrow>
          thenE (mapE (\<lambda>b. get_prop b ''name'') bs) (\<lambda>names.
          thenE (toString_elems (map (\<lambda>n. case n of None \<Rightarrow> JNull | Some v \<Rightarrow> v) names)) (\<lambda>parts.
            (let formatted = join_with [NL] parts
             in Inr \<lparr>content = [TextBlock (if formatted \<noteq> [] then formatted else ''No branches found.'')],
                     isError = False\<rparr>)))
      | _ \<Rightarrow>
          thenE (message_or_body branches) (\<lambda>m.
            Inr \<lparr>content = [TextBlock (''Error: '' @ m)], isError = True\<rparr>))"

definition list_branches :: "world \<Rightarrow> config \<Rightarrow> string \<Rightarrow> string \<Rightarrow> handler_result" where
  "list_branches w cfg owner repo =
     (let call = apiCall w cfg ''GET'' (''/repos/'' @ owner @ ''/'' @ repo @ ''/branches'') None None
      in (thenE (fst call) list_branches_result, snd call))"

subsection \<open>create_issue and create_pull_request\<close>

definition created_text :: "string \<Rightarrow> json \<Rightarrow> js_error + tool_result" where
  "created_text what v =
     thenE (prop_text v ''number'') (\<lambda>t_number.
     thenE (prop_text v ''title'') (\<lambda>t_title.
     thenE (prop_text v ''html_url'') (\<lambda>t_html_url.
       Inr \<lparr>content = [TextBlock (''Created '' @ what @ '' #'' @ t_number @ '': '' @ t_title
                @ [NL] @ ''URL: '' @ t_html_url)],
            isError = False\<rparr>)))"

definition create_issue ::
  "world \<Rightarrow> config \<Rightarrow> string \<Rightarrow> string \<Rightarrow> string \<Rightarrow> string option \<Rightarrow> handler_result" where
  "create_issue w cfg owner repo title body =
     (let call = apiCall w cfg ''POST'' (''/repos/'' @ owner @ ''/'' @ repo @ ''/issues'')
                   (Some [(''title'', Some (JStr title)), (''body'', map_option JStr body)]) None
      in (thenE (fst call) (created_text ''issue''), snd call))"

definition create_pull_request ::
  "world \<Rightarrow> config \<Rightarrow> string \<Rightarrow> string \<Rightarrow> string \<Rightarrow> string \<Rightarrow> string option \<Rightarrow> string option
    \<Rightarrow> handler_result" where
  "create_pull_request w cfg owner repo title head base body =
     (let base = (case base of None \<Rightarrow> ''main'' | Some b \<Rightarrow> b);
          call = apiCall w cfg ''POST'' (''/repos/'' @ owner @ ''/'' @ repo @ ''/pulls'')
                   (Some [(''title'', Some (JStr title)), (''head'', Some (JStr head)),
                          (''base'', Some (JStr base)), (''body'', map_option JStr body)]) None
      in (thenE (fst call) (created_text ''PR''), snd call))"

subsection \<open>get_connection_info\<close>

definition get_connection_info :: "world \<Rightarrow> config \<Rightarrow> handler_result" where
  "get_connection_info w cfg =
     (let detected = detectGitConfig w;
          gitConfig = fst detected;
          info = JObj
            [(''api_url'', JStr (apiUrl cfg)),
             (''is_github'', JBool (isGitHub cfg)),
             (''authenticated'', JBool (token cfg \<noteq> [])),
             (''detected_owner'', JStr (defaultOwner cfg)),
             (''detected_repo'', JStr (defaultRepo cfg)),
             (''git_remote'', JStr (str_or (map_option remoteUrl gitConfig) ''not detected''))]
      in (Inr \<lparr>content = [TextBlock (JSON_stringify_2 info)], isError = False\<rparr>, snd detected))"

section \<open>The registry and the dispatch boundary\<close>

text \<open>The seven tools registered with \<^verbatim>\<open>server.tool\<close>, each with its validated arguments.\<close>

datatype tool_call =
  List_repos "string option" "js_number option" "js_number option"
| Get_repo string string
| List_issues string string "issue_state option" "js_number option" "js_number option"
| List_branches string string
| Create_issue string string string "string option"
| Create_pull_request string string string string "string option" "string option"
| Get_connection_info

fun run_handler :: "world \<Rightarrow> config \<Rightarrow> tool_call \<Rightarrow> handler_result" where
  "run_handler w cfg (List_repos org page per_page) = list_repos w cfg org page per_page"
| "run_handler w cfg (Get_repo owner repo) = get_repo w cfg owner repo"
| "run_handler w cfg (List_issues owner repo state page per_page) =
     list_issues w cfg owner repo state page per_page"
| "run_handler w cfg (List_branches owner repo) = list_branches w cfg owner repo"
| "run_handler w cfg (Create_issue owner repo title body) = create_issue w cfg owner repo title body"
| "run_handler w cfg (Create_pull_request owner repo title head base body) =
     create_pull_request w cfg owner repo title head base body"
| "run_handler w cfg Get_connection_info = get_connection_info w cfg"

text \<open>
  Modelled from the spec: the dispatch boundary of the protocol library (the class
  \<^verbatim>\<open>McpServer\<close> of the package \<^verbatim>\<open>@modelcontextprotocol/sdk\<close>, which calls the
  registered handlers and is not under src/). By section 7 of the specification "all
  per-invocation errors are caught at the dispatch boundary and converted into structured
  error results", and by section 3 an error result carries "a human-readable message and a
  distinguishable error flag": what a handler throws becomes an error result with the
  message of the error, and what it returns is passed on.
\<close>

definition dispatch :: "js_error + tool_result \<Rightarrow> tool_result" where
  "dispatch r =
     (case r of
        Inl e \<Rightarrow> \<lparr>content = [TextBlock (error_message e)], isError = True\<rparr>
      | Inr res \<Rightarrow> res)"

definition call_tool :: "world \<Rightarrow> config \<Rightarrow> tool_call \<Rightarrow> tool_result \<times> string list" where
  "call_tool w cfg c = (let r = run_handler w cfg c in (dispatch (fst r), snd r))"

section \<open>Basic facts\<close>

lemma thenE_Inl [simp]: "thenE (Inl e) f = Inl e"
  by (simp add: thenE_def)

lemma thenE_Inr [simp]: "thenE (Inr x) f = f x"
  by (simp add: thenE_def)

lemma js_String_simps [simp]:
  "js_String None = Inr ''undefined''"
  "js_String (Some (JStr s)) = Inr s"
  "js_String (Some (JNum n)) = Inr (number_text n)"
  by (simp_all add: js_String_def)

lemma mock_world_simps [simp]:
  "execSync (mock_world outcome parsed) cmd = outcome"
  "JSON_parse (mock_world outcome parsed) body = parsed"
  "env (mock_world outcome parsed) name = None"
  by (simp_all add: mock_world_def)

text \<open>A call that ran one command returns what the run and the parse of its output give.\<close>

lemma apiCall_ran:
  assumes "snd (apiCall w cfg m ep d ps) = [cmd]"
  shows "fst (apiCall w cfg m ep d ps) = thenE (execSync w cmd) (JSON_parse w)"
  using assms
  by (auto simp: apiCall_def curlRequest_def Let_def split: option.splits sum.splits)

lemma github_config_simps [simp]:
  "apiUrl (github_config tok) = ''https://api.github.com''"
  "token (github_config tok) = tok"
  "isGitHub (github_config tok) = True"
  "defaultOwner (github_config tok) = []"
  "defaultRepo (github_config tok) = []"
  by (simp_all add: github_config_def)

lemma show_nat_0 [simp]: "show_nat 0 = ''0''"
  by code_simp

lemma urlencode_names [simp]:
  "urlencode ''state'' = ''state''" "urlencode ''page'' = ''page''" "urlencode ''per_page'' = ''per_page''"
  "urlencode ''limit'' = ''limit''" "urlencode ''type'' = ''type''" "urlencode ''all'' = ''all''"
  "urlencode ''open'' = ''open''" "urlencode ''closed'' = ''closed''"
  "urlencode ''1'' = ''1''" "urlencode ''20'' = ''20''" "urlencode ''100'' = ''100''"
  by code_simp+

text \<open>
  A handler that ran one command returns what the run, the parse and its own treatment of
  the response give.
\<close>

lemma handler_ran:
  assumes "snd (run_handler w cfg c) = [cmd]" and "c \<noteq> Get_connection_info"
  shows "fst (run_handler w cfg c) =
    thenE (thenE (execSync w cmd) (JSON_parse w))
      (case c of
         List_repos org page per_page \<Rightarrow> list_repos_result
       | Get_repo owner repo \<Rightarrow> (\<lambda>r. Inr \<lparr>content = [TextBlock (JSON_stringify_2 r)], isError = False\<rparr>)
       | List_issues owner repo state page per_page \<Rightarrow> list_issues_result
       | List_branches owner repo \<Rightarrow> list_branches_result
       | Create_issue owner repo title body \<Rightarrow> created_text ''issue''
       | Create_pull_request owner repo title head base body \<Rightarrow> created_text ''PR'')"
proof (cases c)
  case (List_repos org page per_page)
  with assms show ?thesis
    by (auto simp: list_repos_def Let_def dest: apiCall_ran split: if_splits)
next
  case (Get_repo owner repo)
  with assms show ?thesis
    by (auto simp: get_repo_def Let_def dest: apiCall_ran)
next
  case (List_issues owner repo state page per_page)
  with assms show ?thesis
    by (auto simp: list_issues_def Let_def dest: apiCall_ran)
next
  case (List_branches owner repo)
  with assms show ?thesis
    by (auto simp: list_branches_def Let_def dest: apiCall_ran)
next
  case (Create_issue owner repo title body)
  with assms show ?thesis
    by (auto simp: create_issue_def Let_def dest: apiCall_ran)
next
  case (Create_pull_request owner repo title head base body)
  with assms show ?thesis
    by (auto simp: create_pull_request_def Let_def dest: apiCall_ran)
next
  case Get_connection_info
  with assms show ?thesis by simp
qed

lemma message_or_body_eq:
  assumes "get_prop v ''message'' = Inr m"
    and "if truthy m then js_String m = Inr s else s = JSON_stringify v"
  shows "message_or_body v = Inr s"
  using assms by (auto simp: message_or_body_def js_or_def split: if_splits)

lemma not_array_results:
  assumes "\<not> isArray v"
  shows "list_repos_result v =
      thenE (message_or_body v) (\<lambda>m. Inr \<lparr>content = [TextBlock (''API Error: '' @ m)], isError = True\<rparr>)"
    and "list_issues_result v =
      thenE (message_or_body v) (\<lambda>m. Inr \<lparr>content = [TextBlock (''Error: '' @ m)], isError = True\<rparr>)"
    and "list_branches_result v =
      thenE (message_or_body v) (\<lambda>m. Inr \<lparr>content = [TextBlock (''Error: '' @ m)], isError = True\<rparr>)"
  using assms
  by (cases v; simp add: list_repos_result_def list_issues_result_def list_branches_result_def)+

section \<open>Command lines that pass the shell unchanged\<close>

lemma scan_plain:
  assumes "list_all sh_plain p"
  shows "sh_scan Bare ws (Some w) (p @ rest) = sh_scan Bare ws (Some (w @ p)) rest"
  using assms
proof (induction p arbitrary: w)
  case Nil
  then show ?case by simp
next
  case (Cons c p)
  then have "sh_plain c" and "list_all sh_plain p"
    by simp_all
  moreover from \<open>sh_plain c\<close> have "c \<noteq> CHR '' ''" "c \<noteq> SQ" "c \<noteq> DQ"
    by (auto simp: sh_plain_def is_alnum_def)
  ultimately show ?case
    using Cons.IH [of "w @ [c]"] by (simp add: put_char_def)
qed

lemma scan_single:
  assumes "SQ \<notin> set q"
  shows "sh_scan Single ws (Some w) (q @ rest) = sh_scan Single ws (Some (w @ q)) rest"
  using assms
proof (induction q arbitrary: w)
  case Nil
  then show ?case by simp
next
  case (Cons c q)
  then have "c \<noteq> SQ" and "SQ \<notin> set q"
    by auto
  then show ?case
    using Cons.IH [of "w @ [c]"] by (simp add: put_char_def)
qed

lemma scan_word:
  assumes "word_ok a"
  shows "sh_scan Bare ws None (shell_word a @ CHR '' '' # rest) = sh_scan Bare (ws @ [a]) None rest"
    and "sh_scan Bare ws None (shell_word a) = Argv (ws @ [a])"
proof -
  show "sh_scan Bare ws None (shell_word a @ CHR '' '' # rest) = sh_scan Bare (ws @ [a]) None rest"
  proof (cases "CHR '' '' \<in> set a \<or> CHR ''{'' \<in> set a")
    case True
    with assms have q: "SQ \<notin> set a"
      by (simp add: word_ok_def)
    from True have "shell_word a @ CHR '' '' # rest = SQ # (a @ (SQ # CHR '' '' # rest))"
      by (simp add: shell_word_def)
    then show ?thesis
      using scan_single [OF q, of ws "[]" "SQ # CHR '' '' # rest"]
      by (simp add: open_word_def end_word_def)
  next
    case False
    with assms obtain c p where a: "a = c # p" and pl: "list_all sh_plain (c # p)"
      by (cases a) (auto simp: word_ok_def)
    then have c: "sh_plain c" "c \<noteq> CHR '' ''" "c \<noteq> SQ" "c \<noteq> DQ" and p: "list_all sh_plain p"
      by (auto simp: sh_plain_def is_alnum_def)
    from False have "shell_word a = a"
      by (simp add: shell_word_def)
    with a c show ?thesis
      using scan_plain [OF p, of ws "[c]" "CHR '' '' # rest"]
      by (simp add: put_char_def end_word_def)
  qed
  show "sh_scan Bare ws None (shell_word a) = Argv (ws @ [a])"
  proof (cases "CHR '' '' \<in> set a \<or> CHR ''{'' \<in> set a")
    case True
    with assms have q: "SQ \<notin> set a"
      by (simp add: word_ok_def)
    from True have "shell_word a = SQ # (a @ [SQ])"
      by (simp add: shell_word_def)
    then show ?thesis
      using scan_single [OF q, of ws "[]" "[SQ]"]
      by (simp add: open_word_def end_word_def)
  next
    case False
    with assms obtain c p where a: "a = c # p" and pl: "list_all sh_plain (c # p)"
      by (cases a) (auto simp: word_ok_def)
    then have c: "sh_plain c" "c \<noteq> CHR '' ''" "c \<noteq> SQ" "c \<noteq> DQ" and p: "list_all sh_plain p"
      by (auto simp: sh_plain_def is_alnum_def)
    from False have "shell_word a = a"
      by (simp add: shell_word_def)
    with a c show ?thesis
      using scan_plain [OF p, of ws "[c]" "[]"]
      by (simp add: put_char_def end_word_def)
  qed
qed

lemma scan_words:
  assumes "list_all word_ok args"
  shows "sh_scan Bare ws None (join_with '' '' (map shell_word args)) = Argv (ws @ args)"
  using assms
proof (induction args arbitrary: ws)
  case Nil
  then show ?case by (simp add: end_word_def)
next
  case (Cons a args)
  show ?case
  proof (cases args)
    case Nil
    with Cons.prems show ?thesis
      by (simp add: scan_word)
  next
    case (Cons b bs)
    from Cons.prems have "word_ok a" and "list_all word_ok args"
      by simp_all
    with Cons.IH [of "ws @ [a]"] Cons show ?thesis
      by (simp add: scan_word)
  qed
qed

lemma name_char_plain: "name_char c \<Longrightarrow> sh_plain c"
  by (auto simp: name_char_def sh_plain_def)

lemma names_plain: "list_all name_char s \<Longrightarrow> list_all sh_plain s"
  by (induction s) (simp_all add: name_char_plain)

lemma word_ok_plain: "list_all sh_plain a \<Longrightarrow> a \<noteq> [] \<Longrightarrow> word_ok a"
proof -
  assume a: "list_all sh_plain a" and "a \<noteq> []"
  have "\<not> sh_plain (CHR '' '')" and "\<not> sh_plain (CHR ''{'')"
    by (simp_all add: sh_plain_def is_alnum_def)
  with a have "CHR '' '' \<notin> set a" and "CHR ''{'' \<notin> set a"
    by (auto simp: list_all_iff)
  with a \<open>a \<noteq> []\<close> show ?thesis
    by (simp add: word_ok_def)
qed

lemma word_ok_literals [simp]:
  "word_ok ''curl''" "word_ok ''-s''" "word_ok ''-X''" "word_ok ''GET''" "word_ok ''POST''"
  "word_ok ''--max-time''" "word_ok ''30''" "word_ok ''-H''" "word_ok ''-d''"
  "word_ok ''Accept: application/json''" "word_ok ''Content-Type: application/json''"
  by code_simp+

lemma sh_command_curl:
  assumes "list_all word_ok (curl_args method url data tok gh)"
  shows "sh_command (curl_cmd method url data tok gh) = Argv (curl_args method url data tok gh)"
proof -
  obtain rest where args: "curl_args method url data tok gh = ''curl'' # rest"
    by (simp add: curl_args_def)
  have "sh_scan Bare [] None (curl_cmd method url data tok gh) = Argv (''curl'' # rest)"
    using scan_words [OF assms, of "[]"] by (simp add: curl_cmd_def args)
  moreover have "''curl'' \<notin> set sh_reserved"
    by (simp add: sh_reserved_def)
  ultimately show ?thesis
    by (simp add: sh_command_def args)
qed

lemma hex_lower_no_apostrophe: "n < 16 \<Longrightarrow> hex_lower n \<noteq> SQ"
proof -
  assume "n < 16"
  then have "hex_lower n \<in> set ''0123456789abcdef''"
    unfolding hex_lower_def by (intro nth_mem) simp
  then show ?thesis by auto
qed

lemma escape_char_no_apostrophe:
  assumes "SQ \<noteq> c"
  shows "SQ \<notin> set (escape_char c)"
proof (cases "(of_char c :: nat) < 32")
  case True
  then have "(of_char c :: nat) div 16 < 16" and "(of_char c :: nat) mod 16 < 16"
    by simp_all
  then have "SQ \<noteq> hex_lower (of_char c div 16)" and "SQ \<noteq> hex_lower (of_char c mod 16)"
    by (simp_all add: hex_lower_no_apostrophe not_sym)
  with assms show ?thesis
    by (simp add: escape_char_def)
next
  case False
  with assms show ?thesis
    by (simp add: escape_char_def)
qed

lemma escapes_no_apostrophe:
  assumes "SQ \<notin> set s"
  shows "SQ \<notin> set (concat (map escape_char s))"
  using assms by (induction s) (simp_all add: escape_char_no_apostrophe)

lemma quote_no_apostrophe:
  assumes "SQ \<notin> set s"
  shows "SQ \<notin> set (quote s)"
  using escapes_no_apostrophe [OF assms] by (simp add: quote_def)

section \<open>The configuration gap of list_repos\<close>

text \<open>
  C3: When list_repos is invoked with no org argument, the resolved configuration has an
  empty default owner, and the auth token is empty, the tool returns an error result
  (isError true, with a corrective message) and runs no command, so performs no HTTP
  request.
\<close>

theorem list_repos_no_org_no_token:
  assumes "defaultOwner cfg = []" and "token cfg = []"
  shows "list_repos w cfg None page per_page =
    (Inr \<lparr>content = [TextBlock
        ''Error: No org specified and no auth token. Provide an org name or set GITEA_TOKEN.''],
      isError = True\<rparr>, [])"
  using assms by (simp add: list_repos_def str_or_def)

theorem list_repos_no_org_no_token_witness:
  "list_repos (mock_world (Inr ''[]'') (Inr (JArr [])))
     \<lparr>apiUrl = ''https://api.github.com'', token = [], isGitHub = True,
      defaultOwner = [], defaultRepo = []\<rparr> None None None =
    (Inr \<lparr>content = [TextBlock
        ''Error: No org specified and no auth token. Provide an org name or set GITEA_TOKEN.''],
      isError = True\<rparr>, [])"
  using list_repos_no_org_no_token
    [of "\<lparr>apiUrl = ''https://api.github.com'', token = [], isGitHub = True,
      defaultOwner = [], defaultRepo = []\<rparr>" "mock_world (Inr ''[]'') (Inr (JArr []))" None None]
  by simp

section \<open>API errors\<close>

text \<open>
  Two behaviours next to the check of the listing tools. On the body \<^verbatim>\<open>null\<close> the read
  of \<^verbatim>\<open>message\<close> throws; the two creating tools do not look for a message at all.
\<close>

lemma listing_null_body_throws:
  "list_repos_result JNull =
     Inl (TypeError (''Cannot read properties of null (reading '' @ [SQ] @ ''message'' @ [SQ] @ '')''))"
  "list_issues_result JNull =
     Inl (TypeError (''Cannot read properties of null (reading '' @ [SQ] @ ''message'' @ [SQ] @ '')''))"
  "list_branches_result JNull =
     Inl (TypeError (''Cannot read properties of null (reading '' @ [SQ] @ ''message'' @ [SQ] @ '')''))"
  by (simp_all add: list_repos_result_def list_issues_result_def list_branches_result_def
      message_or_body_def get_prop_def)

lemma created_text_on_error_body:
  "created_text what (JObj [(''message'', JStr ''Not Found'')]) =
     Inr \<lparr>content = [TextBlock (''Created '' @ what @ '' #undefined: undefined'' @ [NL] @ ''URL: undefined'')],
          isError = False\<rparr>"
  by (simp add: created_text_def prop_text_def get_prop_def)

text \<open>
  C1, as stated, fails: get_repo has no check of the response. When the request of
  get_repo is answered with the object \<^verbatim>\<open>{"message": "Not Found"}\<close>, the handler
  returns that object pretty-printed as a success, with isError unset.
\<close>

theorem api_error_passthrough_counterexample:
  "fst (run_handler (mock_world (Inr ''(body)'') (Inr (JObj [(''message'', JStr ''Not Found'')])))
      (github_config ''t0k'') (Get_repo ''acme'' ''widget'')) =
    Inr \<lparr>content = [TextBlock (''{'' @ [NL] @ ''  '' @ [DQ] @ ''message'' @ [DQ] @ '': '' @ [DQ] @ ''Not Found'' @ [DQ] @ [NL] @ ''}'')],
         isError = False\<rparr>"
  by (simp add: get_repo_def apiCall_def curlRequest_def JSON_stringify_2_def quote_def escape_char_def)

text \<open>
  C1, amended: for the three listing tools (list_repos, list_issues, list_branches), when
  the request the tool ran returns a body that parses to a value \<open>v\<close> that is neither an
  array nor null, the tool returns an error result (isError set) whose text is the tool's
  prefix followed by the field \<open>message\<close> of \<open>v\<close> converted to a string when that field is
  truthy, and by the serialization \<^verbatim>\<open>JSON.stringify(v)\<close> when the field is absent or
  falsy; get_repo returns every parsed body, pretty-printed, as a success.
\<close>

theorem api_error_by_tool:
  assumes "snd (run_handler w cfg c) = [cmd]"
    and "execSync w cmd = Inr body" and "JSON_parse w body = Inr v"
  shows "((c = List_repos org page per_page \<or> c = List_issues owner repo state page per_page
          \<or> c = List_branches owner repo)
        \<and> \<not> isArray v \<and> v \<noteq> JNull \<and> get_prop v ''message'' = Inr m
        \<and> (if truthy m then js_String m = Inr s else s = JSON_stringify v)
      \<longrightarrow> fst (run_handler w cfg c) =
        Inr \<lparr>content = [TextBlock ((if c = List_repos org page per_page then ''API Error: ''
                                     else ''Error: '') @ s)],
             isError = True\<rparr>)
    \<and> (c = Get_repo owner repo
      \<longrightarrow> fst (run_handler w cfg c) =
        Inr \<lparr>content = [TextBlock (JSON_stringify_2 v)], isError = False\<rparr>)"
proof (intro conjI impI)
  assume a: "(c = List_repos org page per_page \<or> c = List_issues owner repo state page per_page
          \<or> c = List_branches owner repo)
        \<and> \<not> isArray v \<and> v \<noteq> JNull \<and> get_prop v ''message'' = Inr m
        \<and> (if truthy m then js_String m = Inr s else s = JSON_stringify v)"
  then have "get_prop v ''message'' = Inr m"
    and "if truthy m then js_String m = Inr s else s = JSON_stringify v"
    by simp_all
  then have m: "message_or_body v = Inr s"
    by (rule message_or_body_eq)
  from a have "c \<noteq> Get_connection_info"
    by auto
  from handler_ran [OF assms(1) this] assms(2,3)
  have "fst (run_handler w cfg c) =
      (case c of
         List_repos org page per_page \<Rightarrow> list_repos_result
       | Get_repo owner repo \<Rightarrow> (\<lambda>r. Inr \<lparr>content = [TextBlock (JSON_stringify_2 r)], isError = False\<rparr>)
       | List_issues owner repo state page per_page \<Rightarrow> list_issues_result
       | List_branches owner repo \<Rightarrow> list_branches_result
       | Create_issue owner repo title body \<Rightarrow> created_text ''issue''
       | Create_pull_request owner repo title head base body \<Rightarrow> created_text ''PR'') v"
    by simp
  moreover from a have "\<not> isArray v"
    by simp
  ultimately show "fst (run_handler w cfg c) =
        Inr \<lparr>content = [TextBlock ((if c = List_repos org page per_page then ''API Error: ''
                                     else ''Error: '') @ s)],
             isError = True\<rparr>"
    using a m not_array_results [of v] by auto
next
  assume g: "c = Get_repo owner repo"
  then have "c \<noteq> Get_connection_info"
    by simp
  from handler_ran [OF assms(1) this] assms(2,3) g
  show "fst (run_handler w cfg c) =
        Inr \<lparr>content = [TextBlock (JSON_stringify_2 v)], isError = False\<rparr>"
    by simp
qed

theorem api_error_by_tool_witness:
  "fst (run_handler (mock_world (Inr ''(body)'') (Inr (JObj [(''message'', JStr ''Not Found'')])))
      (github_config ''t0k'') (List_issues ''acme'' ''widget'' None None None)) =
    Inr \<lparr>content = [TextBlock ''Error: Not Found''], isError = True\<rparr>
   \<and> fst (run_handler (mock_world (Inr ''(body)'') (Inr (JObj [(''documentation_url'', JStr ''u'')])))
      (github_config ''t0k'') (List_repos (Some ''acme'') None None)) =
    Inr \<lparr>content = [TextBlock (''API Error: {'' @ [DQ] @ ''documentation_url'' @ [DQ] @ '':'' @ [DQ] @ ''u'' @ [DQ] @ ''}'')], isError = True\<rparr>
   \<and> fst (run_handler (mock_world (Inr ''(body)'') (Inr (JObj [(''message'', JStr ''Not Found'')])))
      (github_config ''t0k'') (Get_repo ''acme'' ''widget'')) =
    Inr \<lparr>content = [TextBlock (JSON_stringify_2 (JObj [(''message'', JStr ''Not Found'')]))],
         isError = False\<rparr>"
proof (intro conjI)
  show "fst (run_handler (mock_world (Inr ''(body)'') (Inr (JObj [(''message'', JStr ''Not Found'')])))
      (github_config ''t0k'') (List_issues ''acme'' ''widget'' None None None)) =
    Inr \<lparr>content = [TextBlock ''Error: Not Found''], isError = True\<rparr>"
    using api_error_by_tool
      [where c = "List_issues ''acme'' ''widget'' None None None" and owner = "''acme''"
        and repo = "''widget''" and state = None and page = None and per_page = None
        and w = "mock_world (Inr ''(body)'') (Inr (JObj [(''message'', JStr ''Not Found'')]))"
        and cfg = "github_config ''t0k''"
        and cmd = "curl_cmd ''GET'' ''https://api.github.com/repos/acme/widget/issues?state=open&page=1&per_page=20&limit=20'' None ''t0k'' True"
        and body = "''(body)''" and v = "JObj [(''message'', JStr ''Not Found'')]"
        and m = "Some (JStr ''Not Found'')" and s = "''Not Found''"]
    by (simp add: list_issues_def apiCall_def curlRequest_def searchParams_toString_def get_prop_def)
  show "fst (run_handler (mock_world (Inr ''(body)'') (Inr (JObj [(''documentation_url'', JStr ''u'')])))
      (github_config ''t0k'') (List_repos (Some ''acme'') None None)) =
    Inr \<lparr>content = [TextBlock (''API Error: {'' @ [DQ] @ ''documentation_url'' @ [DQ] @ '':'' @ [DQ] @ ''u'' @ [DQ] @ ''}'')], isError = True\<rparr>"
    using api_error_by_tool
      [where c = "List_repos (Some ''acme'') None None" and org = "Some ''acme''"
        and page = None and per_page = None
        and w = "mock_world (Inr ''(body)'') (Inr (JObj [(''documentation_url'', JStr ''u'')]))"
        and cfg = "github_config ''t0k''"
        and cmd = "curl_cmd ''GET'' ''https://api.github.com/orgs/acme/repos?page=1&per_page=100&limit=100&type=all'' None ''t0k'' True"
        and body = "''(body)''" and v = "JObj [(''documentation_url'', JStr ''u'')]" and m = None
        and s = "''{'' @ [DQ] @ ''documentation_url'' @ [DQ] @ '':'' @ [DQ] @ ''u'' @ [DQ] @ ''}''"]
    by (simp add: list_repos_def apiCall_def curlRequest_def searchParams_toString_def get_prop_def
        str_or_def quote_def escape_char_def)
  show "fst (run_handler (mock_world (Inr ''(body)'') (Inr (JObj [(''message'', JStr ''Not Found'')])))
      (github_config ''t0k'') (Get_repo ''acme'' ''widget'')) =
    Inr \<lparr>content = [TextBlock (JSON_stringify_2 (JObj [(''message'', JStr ''Not Found'')]))],
         isError = False\<rparr>"
    using api_error_by_tool
      [where c = "Get_repo ''acme'' ''widget''" and owner = "''acme''" and repo = "''widget''"
        and w = "mock_world (Inr ''(body)'') (Inr (JObj [(''message'', JStr ''Not Found'')]))"
        and cfg = "github_config ''t0k''"
        and cmd = "curl_cmd ''GET'' ''https://api.github.com/repos/acme/widget'' None ''t0k'' True"
        and body = "''(body)''" and v = "JObj [(''message'', JStr ''Not Found'')]"]
    by (simp add: get_repo_def apiCall_def curlRequest_def)
qed

section \<open>Transport failures\<close>

text \<open>
  C2: For every invocation of a tool that performs an HTTP request, a transport failure of
  that single request (the command fails or times out, or the response body fails to parse
  as JSON) results in the tool call completing with a structured error result that holds
  the message of the underlying failure; nothing is thrown past the dispatch boundary.
\<close>

theorem transport_failure_is_error_result:
  assumes "c \<noteq> Get_connection_info"
    and "snd (run_handler w cfg c) = [cmd]"
    and "execSync w cmd = Inl e \<or> (\<exists>body. execSync w cmd = Inr body \<and> JSON_parse w body = Inl e)"
  shows "call_tool w cfg c = (\<lparr>content = [TextBlock (error_message e)], isError = True\<rparr>, [cmd])"
proof -
  have "thenE (execSync w cmd) (JSON_parse w) = Inl e"
    using assms(3) by auto
  then have "fst (run_handler w cfg c) = Inl e"
    using handler_ran [OF assms(2) assms(1)] by simp
  then show ?thesis
    using assms(2) by (simp add: call_tool_def dispatch_def Let_def)
qed

theorem transport_failure_is_error_result_witness:
  "call_tool (mock_world (Inl (ExecError ''spawnSync /bin/sh ETIMEDOUT'')) (Inr JNull))
      (github_config ''t0k'') (Get_repo ''acme'' ''widget'') =
    (\<lparr>content = [TextBlock ''spawnSync /bin/sh ETIMEDOUT''], isError = True\<rparr>,
     [curl_cmd ''GET'' ''https://api.github.com/repos/acme/widget'' None ''t0k'' True])
   \<and> call_tool (mock_world (Inr ''<html>'') (Inl (SyntaxError ''Unexpected token < in JSON at position 0'')))
      (github_config ''t0k'') (List_branches ''acme'' ''widget'') =
    (\<lparr>content = [TextBlock ''Unexpected token < in JSON at position 0''], isError = True\<rparr>,
     [curl_cmd ''GET'' ''https://api.github.com/repos/acme/widget/branches'' None ''t0k'' True])"
proof
  show "call_tool (mock_world (Inl (ExecError ''spawnSync /bin/sh ETIMEDOUT'')) (Inr JNull))
      (github_config ''t0k'') (Get_repo ''acme'' ''widget'') =
    (\<lparr>content = [TextBlock ''spawnSync /bin/sh ETIMEDOUT''], isError = True\<rparr>,
     [curl_cmd ''GET'' ''https://api.github.com/repos/acme/widget'' None ''t0k'' True])"
    using transport_failure_is_error_result
      [where c = "Get_repo ''acme'' ''widget''"
        and w = "mock_world (Inl (ExecError ''spawnSync /bin/sh ETIMEDOUT'')) (Inr JNull)"
        and cfg = "github_config ''t0k''"
        and cmd = "curl_cmd ''GET'' ''https://api.github.com/repos/acme/widget'' None ''t0k'' True"
        and e = "ExecError ''spawnSync /bin/sh ETIMEDOUT''"]
    by (simp add: get_repo_def apiCall_def curlRequest_def)
  show "call_tool (mock_world (Inr ''<html>'') (Inl (SyntaxError ''Unexpected token < in JSON at position 0'')))
      (github_config ''t0k'') (List_branches ''acme'' ''widget'') =
    (\<lparr>content = [TextBlock ''Unexpected token < in JSON at position 0''], isError = True\<rparr>,
     [curl_cmd ''GET'' ''https://api.github.com/repos/acme/widget/branches'' None ''t0k'' True])"
    using transport_failure_is_error_result
      [where c = "List_branches ''acme'' ''widget''"
        and w = "mock_world (Inr ''<html>'') (Inl (SyntaxError ''Unexpected token < in JSON at position 0''))"
        and cfg = "github_config ''t0k''"
        and cmd = "curl_cmd ''GET'' ''https://api.github.com/repos/acme/widget/branches'' None ''t0k'' True"
        and e = "SyntaxError ''Unexpected token < in JSON at position 0''"]
    by (simp add: list_branches_def apiCall_def curlRequest_def)
qed

section \<open>The list_issues scenario\<close>

lemma quote_plain [simp]:
  "quote ''title'' = [DQ] @ ''title'' @ [DQ]" "quote ''head'' = [DQ] @ ''head'' @ [DQ]"
  "quote ''base'' = [DQ] @ ''base'' @ [DQ]" "quote ''body'' = [DQ] @ ''body'' @ [DQ]"
  "quote ''main'' = [DQ] @ ''main'' @ [DQ]" "quote ''Bug'' = [DQ] @ ''Bug'' @ [DQ]"
  by (simp_all add: quote_def escape_char_def)

lemma mapE_Cons_Inr:
  assumes "mapE f (x # xs) = Inr ys"
  obtains y ys' where "ys = y # ys'" and "f x = Inr y" and "mapE f xs = Inr ys'"
  using assms by (auto simp: thenE_def split: sum.splits)

lemma join_with_nonempty: "y \<noteq> [] \<Longrightarrow> join_with sep (y # ys) \<noteq> []"
  by (cases ys) simp_all

lemma format_issue_nonempty: "format_issue x = Inr l \<Longrightarrow> l \<noteq> []"
  by (auto simp: format_issue_def thenE_def split: sum.splits)

text \<open>
  On an array response list_issues formats each element as \<^verbatim>\<open>#<number>: <title> [<state>]\<close>
  and joins the lines with newlines; the text of an empty array is \<^verbatim>\<open>No issues found.\<close>
\<close>

lemma list_issues_lines:
  assumes "snd (list_issues w cfg owner repo state page per_page) = [cmd]"
    and "execSync w cmd = Inr body" and "JSON_parse w body = Inr (JArr xs)"
    and "mapE format_issue xs = Inr lines"
  shows "fst (list_issues w cfg owner repo state page per_page) =
    Inr \<lparr>content = [TextBlock (if xs = [] then ''No issues found.'' else join_with [NL] lines)],
         isError = False\<rparr>"
proof -
  have res: "fst (list_issues w cfg owner repo state page per_page) = list_issues_result (JArr xs)"
    using handler_ran [of w cfg "List_issues owner repo state page per_page" cmd] assms(1-3)
    by simp
  show ?thesis
  proof (cases xs)
    case Nil
    with assms(4) res show ?thesis
      by (simp add: list_issues_result_def)
  next
    case (Cons x xs')
    from assms(4) have "mapE format_issue (x # xs') = Inr lines"
      by (simp only: Cons)
    then obtain l ls where "lines = l # ls" and "format_issue x = Inr l"
      by (rule mapE_Cons_Inr)
    then have "join_with [NL] lines \<noteq> []"
      by (simp add: join_with_nonempty format_issue_nonempty)
    with assms(4) res Cons show ?thesis
      by (simp add: list_issues_result_def Let_def)
  qed
qed

text \<open>
  C4: the scenario of list_issues on a GitHub-style configuration with a non-empty token,
  with owner "acme", repo "widget", state "closed", and page and per_page omitted. The
  handler runs exactly one command line, a GET with the header
  \<^verbatim>\<open>Authorization: Bearer <token>\<close>, whose last word is the URL with the query string
  \<^verbatim>\<open>state=closed&page=1&per_page=20&limit=20\<close>. That word stands unquoted:
  \<^verbatim>\<open>curlRequest\<close> puts quotes around an argument only when it holds a space or a brace.
  \<^verbatim>\<open>execSync\<close> hands the command line to a shell, for which an unquoted \<^verbatim>\<open>&\<close> ends a
  command, so the request that leaves is not the one to the whole URL.
\<close>

theorem list_issues_closed_command:
  assumes "isGitHub cfg" and "token cfg \<noteq> []"
    and "CHR '' '' \<notin> set (apiUrl cfg)" and "CHR ''{'' \<notin> set (apiUrl cfg)"
  shows "snd (list_issues w cfg ''acme'' ''widget'' (Some Closed) None None) =
    [''curl -s -X GET --max-time 30''
      @ '' -H '' @ [SQ] @ ''Accept: application/json'' @ [SQ]
      @ '' -H '' @ [SQ] @ ''Content-Type: application/json'' @ [SQ]
      @ '' -H '' @ [SQ] @ ''Authorization: Bearer '' @ token cfg @ [SQ]
      @ '' '' @ apiUrl cfg @ ''/repos/acme/widget/issues?state=closed&page=1&per_page=20&limit=20'']
    \<and> shell_word (apiUrl cfg @ ''/repos/acme/widget/issues?state=closed&page=1&per_page=20&limit=20'') =
      apiUrl cfg @ ''/repos/acme/widget/issues?state=closed&page=1&per_page=20&limit=20''
    \<and> CHR ''&'' \<in> set (apiUrl cfg @ ''/repos/acme/widget/issues?state=closed&page=1&per_page=20&limit=20'')"
  using assms
  by (simp add: list_issues_def apiCall_def curlRequest_def searchParams_toString_def Let_def
      curl_cmd_def curl_args_def shell_word_def)

theorem list_issues_closed_command_witness:
  "snd (list_issues (mock_world (Inr ''[]'') (Inr (JArr []))) (github_config ''t0k'')
      ''acme'' ''widget'' (Some Closed) None None) =
    [''curl -s -X GET --max-time 30''
      @ '' -H '' @ [SQ] @ ''Accept: application/json'' @ [SQ]
      @ '' -H '' @ [SQ] @ ''Content-Type: application/json'' @ [SQ]
      @ '' -H '' @ [SQ] @ ''Authorization: Bearer t0k'' @ [SQ]
      @ '' https://api.github.com/repos/acme/widget/issues?state=closed&page=1&per_page=20&limit=20'']
   \<and> shell_word ''https://api.github.com/repos/acme/widget/issues?state=closed&page=1&per_page=20&limit=20'' =
      ''https://api.github.com/repos/acme/widget/issues?state=closed&page=1&per_page=20&limit=20''"
  using list_issues_closed_command
    [where cfg = "github_config ''t0k''" and w = "mock_world (Inr ''[]'') (Inr (JArr []))"]
  by simp

section \<open>The create_issue scenario\<close>

text \<open>
  C5: Invoking create_issue with owner "acme", repo "widget", title "Bug" and body omitted
  runs one command, a POST to \<^verbatim>\<open>/repos/acme/widget/issues\<close> whose body is the
  serialization of \<^verbatim>\<open>{title: "Bug", body: undefined}\<close>, that is \<^verbatim>\<open>{"title":"Bug"}\<close>; and
  given the response \<^verbatim>\<open>{number: 7, title: "Bug", html_url: "https://x/7"}\<close> it returns the
  success text \<^verbatim>\<open>Created issue #7: Bug\<close>, a newline, \<^verbatim>\<open>URL: https://x/7\<close>.
\<close>

theorem create_issue_scenario:
  assumes "snd (create_issue w cfg ''acme'' ''widget'' ''Bug'' None) = [cmd]"
    and "execSync w cmd = Inr body"
    and "JSON_parse w body =
      Inr (JObj [(''number'', JNum (Number ''7'')), (''title'', JStr ''Bug''), (''html_url'', JStr ''https://x/7'')])"
  shows "cmd = curl_cmd ''POST'' (apiUrl cfg @ ''/repos/acme/widget/issues'')
        (Some [(''title'', Some (JStr ''Bug'')), (''body'', None)]) (token cfg) (isGitHub cfg)
    \<and> curl_args ''POST'' (apiUrl cfg @ ''/repos/acme/widget/issues'')
        (Some [(''title'', Some (JStr ''Bug'')), (''body'', None)]) (token cfg) (isGitHub cfg) =
      [''curl'', ''-s'', ''-X'', ''POST'', ''--max-time'', ''30'', ''-H'', ''Accept: application/json'',
       ''-H'', ''Content-Type: application/json'']
      @ (if token cfg \<noteq> []
         then [''-H'', ''Authorization: '' @ (if isGitHub cfg then ''Bearer '' else ''token '') @ token cfg]
         else [])
      @ [''-d'', ''{'' @ [DQ] @ ''title'' @ [DQ] @ '':'' @ [DQ] @ ''Bug'' @ [DQ] @ ''}'',
         apiUrl cfg @ ''/repos/acme/widget/issues'']
    \<and> fst (create_issue w cfg ''acme'' ''widget'' ''Bug'' None) =
      Inr \<lparr>content = [TextBlock (''Created issue #7: Bug'' @ [NL] @ ''URL: https://x/7'')],
           isError = False\<rparr>"
proof -
  have log: "snd (create_issue w cfg ''acme'' ''widget'' ''Bug'' None) =
      [curl_cmd ''POST'' (apiUrl cfg @ ''/repos/acme/widget/issues'')
        (Some [(''title'', Some (JStr ''Bug'')), (''body'', None)]) (token cfg) (isGitHub cfg)]"
    by (simp add: create_issue_def apiCall_def curlRequest_def Let_def)
  have args: "curl_args ''POST'' (apiUrl cfg @ ''/repos/acme/widget/issues'')
        (Some [(''title'', Some (JStr ''Bug'')), (''body'', None)]) (token cfg) (isGitHub cfg) =
      [''curl'', ''-s'', ''-X'', ''POST'', ''--max-time'', ''30'', ''-H'', ''Accept: application/json'',
       ''-H'', ''Content-Type: application/json'']
      @ (if token cfg \<noteq> []
         then [''-H'', ''Authorization: '' @ (if isGitHub cfg then ''Bearer '' else ''token '') @ token cfg]
         else [])
      @ [''-d'', ''{'' @ [DQ] @ ''title'' @ [DQ] @ '':'' @ [DQ] @ ''Bug'' @ [DQ] @ ''}'',
         apiUrl cfg @ ''/repos/acme/widget/issues'']"
    by (simp add: curl_args_def stringify_object_def)
  have "fst (run_handler w cfg (Create_issue ''acme'' ''widget'' ''Bug'' None)) =
      created_text ''issue''
        (JObj [(''number'', JNum (Number ''7'')), (''title'', JStr ''Bug''), (''html_url'', JStr ''https://x/7'')])"
    using handler_ran [of w cfg "Create_issue ''acme'' ''widget'' ''Bug'' None" cmd] assms
    by simp
  then have res: "fst (create_issue w cfg ''acme'' ''widget'' ''Bug'' None) =
      Inr \<lparr>content = [TextBlock (''Created issue #7: Bug'' @ [NL] @ ''URL: https://x/7'')],
           isError = False\<rparr>"
    by (simp add: created_text_def prop_text_def get_prop_def)
  from log assms(1) args res show ?thesis
    by simp
qed

theorem create_issue_scenario_witness:
  "create_issue (mock_world (Inr ''(body)'')
        (Inr (JObj [(''number'', JNum (Number ''7'')), (''title'', JStr ''Bug''), (''html_url'', JStr ''https://x/7'')])))
      (github_config ''t0k'') ''acme'' ''widget'' ''Bug'' None =
    (Inr \<lparr>content = [TextBlock (''Created issue #7: Bug'' @ [NL] @ ''URL: https://x/7'')],
          isError = False\<rparr>,
     [''curl -s -X POST --max-time 30''
      @ '' -H '' @ [SQ] @ ''Accept: application/json'' @ [SQ]
      @ '' -H '' @ [SQ] @ ''Content-Type: application/json'' @ [SQ]
      @ '' -H '' @ [SQ] @ ''Authorization: Bearer t0k'' @ [SQ]
      @ '' -d '' @ [SQ] @ ''{'' @ [DQ] @ ''title'' @ [DQ] @ '':'' @ [DQ] @ ''Bug'' @ [DQ] @ ''}'' @ [SQ]
      @ '' https://api.github.com/repos/acme/widget/issues''])"
proof -
  have log: "snd (create_issue (mock_world (Inr ''(body)'')
        (Inr (JObj [(''number'', JNum (Number ''7'')), (''title'', JStr ''Bug''), (''html_url'', JStr ''https://x/7'')])))
      (github_config ''t0k'') ''acme'' ''widget'' ''Bug'' None) =
      [curl_cmd ''POST'' ''https://api.github.com/repos/acme/widget/issues''
        (Some [(''title'', Some (JStr ''Bug'')), (''body'', None)]) ''t0k'' True]"
    by (simp add: create_issue_def apiCall_def curlRequest_def Let_def)
  have cmd: "curl_cmd ''POST'' ''https://api.github.com/repos/acme/widget/issues''
        (Some [(''title'', Some (JStr ''Bug'')), (''body'', None)]) ''t0k'' True =
      ''curl -s -X POST --max-time 30''
      @ '' -H '' @ [SQ] @ ''Accept: application/json'' @ [SQ]
      @ '' -H '' @ [SQ] @ ''Content-Type: application/json'' @ [SQ]
      @ '' -H '' @ [SQ] @ ''Authorization: Bearer t0k'' @ [SQ]
      @ '' -d '' @ [SQ] @ ''{'' @ [DQ] @ ''title'' @ [DQ] @ '':'' @ [DQ] @ ''Bug'' @ [DQ] @ ''}'' @ [SQ]
      @ '' https://api.github.com/repos/acme/widget/issues''"
    by (simp add: curl_cmd_def curl_args_def shell_word_def stringify_object_def)
  from create_issue_scenario [OF log, of "''(body)''"] log cmd show ?thesis
    by (simp add: prod_eq_iff)
qed

section \<open>get_repo\<close>



section \<open>The default base of create_pull_request\<close>

text \<open>
  With the base argument omitted, the body that create_pull_request serializes for the
  POST to \<^verbatim>\<open>/repos/{owner}/{repo}/pulls\<close> holds \<^verbatim>\<open>"base":"main"\<close>. For a title, a head and
  a body without a single quote (and names and a configuration as for get_repo) the shell
  starts \<^verbatim>\<open>curl\<close> with that body as the argument of \<^verbatim>\<open>-d\<close>.
\<close>

lemma create_pull_request_argv:
  fixes w cfg owner repo title head body
  defines "url \<equiv> apiUrl cfg @ ''/repos/'' @ owner @ ''/'' @ repo @ ''/pulls''"
  defines "json \<equiv> ''{'' @ [DQ] @ ''title'' @ [DQ] @ '':'' @ quote title
       @ '','' @ [DQ] @ ''head'' @ [DQ] @ '':'' @ quote head
       @ '','' @ [DQ] @ ''base'' @ [DQ] @ '':'' @ [DQ] @ ''main'' @ [DQ]
       @ (case body of None \<Rightarrow> [] | Some b \<Rightarrow> '','' @ [DQ] @ ''body'' @ [DQ] @ '':'' @ quote b)
       @ ''}''"
  assumes "list_all sh_plain (apiUrl cfg)" and "SQ \<notin> set (token cfg)"
    and "list_all name_char owner" and "list_all name_char repo"
    and "SQ \<notin> set title" and "SQ \<notin> set head" and "\<forall>b. body = Some b \<longrightarrow> SQ \<notin> set b"
  shows "\<exists>cmd. snd (create_pull_request w cfg owner repo title head None body) = [cmd]
    \<and> sh_command cmd =
        Argv ([''curl'', ''-s'', ''-X'', ''POST'', ''--max-time'', ''30'',
               ''-H'', ''Accept: application/json'', ''-H'', ''Content-Type: application/json'']
          @ (if token cfg \<noteq> []
             then [''-H'', ''Authorization: '' @ (if isGitHub cfg then ''Bearer '' else ''token '') @ token cfg]
             else [])
          @ [''-d'', json, url])"
proof -
  let ?data = "Some [(''title'', Some (JStr title)), (''head'', Some (JStr head)),
              (''base'', Some (JStr ''main'')), (''body'', map_option JStr body)]"
  have plain: "list_all sh_plain url"
    using assms(3,5,6) by (simp add: url_def names_plain) (simp add: sh_plain_def is_alnum_def)
  have u: "word_ok url"
    using plain by (rule word_ok_plain) (simp add: url_def)
  have t: "word_ok (''Authorization: '' @ (if isGitHub cfg then ''Bearer '' else ''token '') @ token cfg)"
    using assms(4) by (simp add: word_ok_def)
  have j: "stringify_object (the ?data) = json"
    by (cases body) (simp_all add: stringify_object_def json_def)
  have "SQ \<notin> set json"
    using assms(7,8,9) quote_no_apostrophe [of title] quote_no_apostrophe [of head]
    by (cases body) (auto simp: json_def dest: quote_no_apostrophe)
  then have d: "word_ok json"
    by (simp add: word_ok_def json_def)
  have args: "curl_args ''POST'' url ?data (token cfg) (isGitHub cfg) =
      [''curl'', ''-s'', ''-X'', ''POST'', ''--max-time'', ''30'',
               ''-H'', ''Accept: application/json'', ''-H'', ''Content-Type: application/json'']
          @ (if token cfg \<noteq> []
             then [''-H'', ''Authorization: '' @ (if isGitHub cfg then ''Bearer '' else ''token '') @ token cfg]
             else [])
          @ [''-d'', json, url]"
    using j by (simp add: curl_args_def)
  have "list_all word_ok (curl_args ''POST'' url ?data (token cfg) (isGitHub cfg))"
    using u t d by (simp add: args)
  from sh_command_curl [OF this]
  have 2: "sh_command (curl_cmd ''POST'' url ?data (token cfg) (isGitHub cfg)) =
      Argv ([''curl'', ''-s'', ''-X'', ''POST'', ''--max-time'', ''30'',
               ''-H'', ''Accept: application/json'', ''-H'', ''Content-Type: application/json'']
          @ (if token cfg \<noteq> []
             then [''-H'', ''Authorization: '' @ (if isGitHub cfg then ''Bearer '' else ''token '') @ token cfg]
             else [])
          @ [''-d'', json, url])"
    by (simp only: args)
  have 1: "snd (create_pull_request w cfg owner repo title head None body) =
      [curl_cmd ''POST'' url ?data (token cfg) (isGitHub cfg)]"
    by (simp add: create_pull_request_def apiCall_def curlRequest_def Let_def url_def)
  from 1 2 show ?thesis
    by blast
qed

text \<open>
  C7: invoking create_pull_request with the base argument omitted is to send "main" as the
  base branch in the body of the POST request. With the title \<^verbatim>\<open>it's\<close> it does not: the
  body goes between single quotes, the quote of the title ends the quoted text early, and
  the shell finds a quote left open in the command line: a syntax error, and no request.
\<close>

theorem create_pull_request_apostrophe:
  fixes w
  defines "cmd \<equiv> ''curl -s -X POST --max-time 30''
      @ '' -H '' @ [SQ] @ ''Accept: application/json'' @ [SQ]
      @ '' -H '' @ [SQ] @ ''Content-Type: application/json'' @ [SQ]
      @ '' -H '' @ [SQ] @ ''Authorization: Bearer t0k'' @ [SQ]
      @ '' -d '' @ [SQ] @ ''{'' @ [DQ] @ ''title'' @ [DQ] @ '':'' @ [DQ] @ ''it'' @ [SQ] @ ''s'' @ [DQ]
        @ '','' @ [DQ] @ ''head'' @ [DQ] @ '':'' @ [DQ] @ ''feat'' @ [DQ]
        @ '','' @ [DQ] @ ''base'' @ [DQ] @ '':'' @ [DQ] @ ''main'' @ [DQ] @ ''}'' @ [SQ]
      @ '' https://api.github.com/repos/acme/widget/pulls''"
  shows "snd (create_pull_request w (github_config ''t0k'') ''acme'' ''widget''
        (''it'' @ [SQ] @ ''s'') ''feat'' None None) = [cmd]
    \<and> sh_command cmd = Syntax_error"
proof -
  have "curl_cmd ''POST'' ''https://api.github.com/repos/acme/widget/pulls''
      (Some [(''title'', Some (JStr (''it'' @ [SQ] @ ''s''))), (''head'', Some (JStr ''feat'')),
             (''base'', Some (JStr ''main'')), (''body'', None)]) ''t0k'' True = cmd"
    unfolding cmd_def by code_simp
  then have 1: "snd (create_pull_request w (github_config ''t0k'') ''acme'' ''widget''
        (''it'' @ [SQ] @ ''s'') ''feat'' None None) = [cmd]"
    by (simp add: create_pull_request_def apiCall_def curlRequest_def Let_def)
  have 2: "sh_command cmd = Syntax_error"
    unfolding cmd_def by code_simp
  from 1 2 show ?thesis by simp
qed

theorem create_pull_request_apostrophe_witness:
  "sh_command (hd (snd (create_pull_request (mock_world (Inr ''(body)'') (Inr JNull))
      (github_config ''t0k'') ''acme'' ''widget'' (''it'' @ [SQ] @ ''s'') ''feat'' None None))) =
    Syntax_error"
  using create_pull_request_apostrophe [of "mock_world (Inr ''(body)'') (Inr JNull)"]
  by simp

section \<open>Detection of owner and repository\<close>

lemma remote_match_example:
  "remote_match ''git@host:acme/widget.git'' = Some (''acme'', ''widget'')"
  by code_simp

lemma trim_example: "trim (''git@host:acme/widget.git'' @ [NL]) = ''git@host:acme/widget.git''"
  by code_simp

lemma str_or_empty: "str_or a [] = (case a of None \<Rightarrow> [] | Some s \<Rightarrow> s)"
  by (simp add: str_or_def split: option.splits)

text \<open>
  C8: Given the git remote URL \<^verbatim>\<open>git@host:acme/widget.git\<close>, configuration detection
  resolves owner "acme" and repo "widget". Given a remote URL that the pattern does not
  match, or when the query of the remote fails, detection returns null without raising,
  and the configuration falls back to the environment variables, then to empty strings.
\<close>

theorem detect_git_remote:
  "(execSync w ''git remote get-url origin'' = Inr out \<and> trim out = ''git@host:acme/widget.git''
      \<longrightarrow> fst (detectGitConfig w) =
            Some \<lparr>git_owner = ''acme'', git_repo = ''widget'', remoteUrl = ''git@host:acme/widget.git''\<rparr>
        \<and> defaultOwner (getApiConfig w) = ''acme'' \<and> defaultRepo (getApiConfig w) = ''widget'')
   \<and> (execSync w ''git remote get-url origin'' = Inl e
        \<or> (execSync w ''git remote get-url origin'' = Inr out \<and> remote_match (trim out) = None)
      \<longrightarrow> fst (detectGitConfig w) = None
        \<and> defaultOwner (getApiConfig w) = (case env w ''GITEA_OWNER'' of None \<Rightarrow> [] | Some s \<Rightarrow> s)
        \<and> defaultRepo (getApiConfig w) = (case env w ''GITEA_REPO'' of None \<Rightarrow> [] | Some s \<Rightarrow> s))"
proof (intro conjI impI)
  assume a: "execSync w ''git remote get-url origin'' = Inr out \<and> trim out = ''git@host:acme/widget.git''"
  then show d: "fst (detectGitConfig w) =
      Some \<lparr>git_owner = ''acme'', git_repo = ''widget'', remoteUrl = ''git@host:acme/widget.git''\<rparr>"
    by (simp add: detectGitConfig_def Let_def remote_match_example del: remote_match.simps)
  from d show "defaultOwner (getApiConfig w) = ''acme''"
    by (simp add: getApiConfig_def Let_def str_or_def)
  from d show "defaultRepo (getApiConfig w) = ''widget''"
    by (simp add: getApiConfig_def Let_def str_or_def)
next
  assume b: "execSync w ''git remote get-url origin'' = Inl e
      \<or> (execSync w ''git remote get-url origin'' = Inr out \<and> remote_match (trim out) = None)"
  then show d: "fst (detectGitConfig w) = None"
    by (auto simp: detectGitConfig_def Let_def)
  from d show "defaultOwner (getApiConfig w) = (case env w ''GITEA_OWNER'' of None \<Rightarrow> [] | Some s \<Rightarrow> s)"
    by (simp add: getApiConfig_def Let_def str_or_empty) (simp add: str_or_def)
  from d show "defaultRepo (getApiConfig w) = (case env w ''GITEA_REPO'' of None \<Rightarrow> [] | Some s \<Rightarrow> s)"
    by (simp add: getApiConfig_def Let_def str_or_empty) (simp add: str_or_def)
qed

theorem detect_git_remote_witness:
  "defaultOwner (getApiConfig (mock_world (Inr (''git@host:acme/widget.git'' @ [NL])) (Inr JNull))) = ''acme''
   \<and> defaultRepo (getApiConfig (mock_world (Inr (''git@host:acme/widget.git'' @ [NL])) (Inr JNull))) = ''widget''
   \<and> fst (detectGitConfig
        ((mock_world (Inl (ExecError ''fatal: not a git repository'')) (Inr JNull))
          \<lparr>env := (\<lambda>n. if n = ''GITEA_OWNER'' then Some ''octo'' else None)\<rparr>)) = None
   \<and> defaultOwner (getApiConfig
        ((mock_world (Inl (ExecError ''fatal: not a git repository'')) (Inr JNull))
          \<lparr>env := (\<lambda>n. if n = ''GITEA_OWNER'' then Some ''octo'' else None)\<rparr>)) = ''octo''
   \<and> defaultRepo (getApiConfig
        ((mock_world (Inl (ExecError ''fatal: not a git repository'')) (Inr JNull))
          \<lparr>env := (\<lambda>n. if n = ''GITEA_OWNER'' then Some ''octo'' else None)\<rparr>)) = []
   \<and> fst (detectGitConfig (mock_world (Inr ''origin-without-path'') (Inr JNull))) = None
   \<and> fst (detectGitConfig
        (mock_world (Inr (''git@host:acme/widget.git'' @ [CHR 0xC2, CHR 0xA0, NL])) (Inr JNull))) =
      Some \<lparr>git_owner = ''acme'', git_repo = ''widget'', remoteUrl = ''git@host:acme/widget.git''\<rparr>"
proof -
  have t: "trim (''git@host:acme/widget.git'' @ [NL]) = ''git@host:acme/widget.git''"
    by code_simp
  from detect_git_remote
    [where w = "mock_world (Inr (''git@host:acme/widget.git'' @ [NL])) (Inr JNull)"
      and out = "''git@host:acme/widget.git'' @ [NL]"] t
  have 1: "defaultOwner (getApiConfig (mock_world (Inr (''git@host:acme/widget.git'' @ [NL])) (Inr JNull))) = ''acme''
    \<and> defaultRepo (getApiConfig (mock_world (Inr (''git@host:acme/widget.git'' @ [NL])) (Inr JNull))) = ''widget''"
    by (simp add: mock_world_def)
  from detect_git_remote
    [where w = "(mock_world (Inl (ExecError ''fatal: not a git repository'')) (Inr JNull))
          \<lparr>env := (\<lambda>n. if n = ''GITEA_OWNER'' then Some ''octo'' else None)\<rparr>"
      and e = "ExecError ''fatal: not a git repository''"]
  have 2: "fst (detectGitConfig
        ((mock_world (Inl (ExecError ''fatal: not a git repository'')) (Inr JNull))
          \<lparr>env := (\<lambda>n. if n = ''GITEA_OWNER'' then Some ''octo'' else None)\<rparr>)) = None
   \<and> defaultOwner (getApiConfig
        ((mock_world (Inl (ExecError ''fatal: not a git repository'')) (Inr JNull))
          \<lparr>env := (\<lambda>n. if n = ''GITEA_OWNER'' then Some ''octo'' else None)\<rparr>)) = ''octo''
   \<and> defaultRepo (getApiConfig
        ((mock_world (Inl (ExecError ''fatal: not a git repository'')) (Inr JNull))
          \<lparr>env := (\<lambda>n. if n = ''GITEA_OWNER'' then Some ''octo'' else None)\<rparr>)) = []"
    by (simp add: mock_world_def)
  have m: "remote_match (trim ''origin-without-path'') = None"
    by code_simp
  from detect_git_remote
    [where w = "mock_world (Inr ''origin-without-path'') (Inr JNull)"
      and out = "''origin-without-path''"] m
  have 3: "fst (detectGitConfig (mock_world (Inr ''origin-without-path'') (Inr JNull))) = None"
    by (simp add: mock_world_def)
  have u: "trim (''git@host:acme/widget.git'' @ [CHR 0xC2, CHR 0xA0, NL]) = ''git@host:acme/widget.git''"
    by code_simp
  from detect_git_remote
    [where w = "mock_world (Inr (''git@host:acme/widget.git'' @ [CHR 0xC2, CHR 0xA0, NL])) (Inr JNull)"
      and out = "''git@host:acme/widget.git'' @ [CHR 0xC2, CHR 0xA0, NL]"] u
  have 4: "fst (detectGitConfig
        (mock_world (Inr (''git@host:acme/widget.git'' @ [CHR 0xC2, CHR 0xA0, NL])) (Inr JNull))) =
      Some \<lparr>git_owner = ''acme'', git_repo = ''widget'', remoteUrl = ''git@host:acme/widget.git''\<rparr>"
    by (simp add: mock_world_def)
  from 1 2 3 4 show ?thesis by simp
qed

section \<open>get_connection_info\<close>

lemma detected_remote_nonempty:
  assumes "fst (detectGitConfig w) = Some g"
  shows "remoteUrl g \<noteq> []"
proof
  assume "remoteUrl g = []"
  with assms show False
    by (auto simp: detectGitConfig_def Let_def split: sum.splits option.splits)
qed

text \<open>
  C9: For every invocation of get_connection_info the result is a success: it reports the
  resolved configuration (API URL, GitHub flavor, whether a token is set, owner and repo)
  and the re-detected git remote or "not detected", and its isError flag is not set,
  whether the re-detection of the remote succeeds or not.
\<close>

theorem get_connection_info_succeeds:
  "fst (get_connection_info w cfg) =
    Inr \<lparr>content = [TextBlock (JSON_stringify_2 (JObj
            [(''api_url'', JStr (apiUrl cfg)),
             (''is_github'', JBool (isGitHub cfg)),
             (''authenticated'', JBool (token cfg \<noteq> [])),
             (''detected_owner'', JStr (defaultOwner cfg)),
             (''detected_repo'', JStr (defaultRepo cfg)),
             (''git_remote'', JStr (case fst (detectGitConfig w) of
                                     None \<Rightarrow> ''not detected'' | Some g \<Rightarrow> remoteUrl g))]))],
         isError = False\<rparr>"
proof (cases "fst (detectGitConfig w)")
  case None
  then show ?thesis
    by (simp add: get_connection_info_def Let_def str_or_def)
next
  case (Some g)
  with detected_remote_nonempty [OF Some] show ?thesis
    by (simp add: get_connection_info_def Let_def str_or_def)
qed

theorem get_connection_info_succeeds_witness:
  "fst (get_connection_info (mock_world (Inl (ExecError ''fatal: not a git repository'')) (Inr JNull))
      (github_config [])) =
    Inr \<lparr>content = [TextBlock (JSON_stringify_2 (JObj
            [(''api_url'', JStr ''https://api.github.com''),
             (''is_github'', JBool True),
             (''authenticated'', JBool False),
             (''detected_owner'', JStr []),
             (''detected_repo'', JStr []),
             (''git_remote'', JStr ''not detected'')]))],
         isError = False\<rparr>
   \<and> fst (get_connection_info (mock_world (Inr (''git@host:acme/widget.git'' @ [NL])) (Inr JNull))
      (github_config ''t0k'')) =
    Inr \<lparr>content = [TextBlock (JSON_stringify_2 (JObj
            [(''api_url'', JStr ''https://api.github.com''),
             (''is_github'', JBool True),
             (''authenticated'', JBool True),
             (''detected_owner'', JStr []),
             (''detected_repo'', JStr []),
             (''git_remote'', JStr ''git@host:acme/widget.git'')]))],
         isError = False\<rparr>"
proof -
  have t: "trim (''git@host:acme/widget.git'' @ [NL]) = ''git@host:acme/widget.git''"
    by code_simp
  have d1: "fst (detectGitConfig (mock_world (Inl (ExecError ''fatal: not a git repository'')) (Inr JNull))) = None"
    by (simp add: detectGitConfig_def)
  have d2: "fst (detectGitConfig (mock_world (Inr (''git@host:acme/widget.git'' @ [NL])) (Inr JNull))) =
      Some \<lparr>git_owner = ''acme'', git_repo = ''widget'', remoteUrl = ''git@host:acme/widget.git''\<rparr>"
    by (simp add: detectGitConfig_def Let_def t [simplified] remote_match_example del: remote_match.simps)
  from get_connection_info_succeeds
      [of "mock_world (Inl (ExecError ''fatal: not a git repository'')) (Inr JNull)" "github_config []"]
    get_connection_info_succeeds
      [of "mock_world (Inr (''git@host:acme/widget.git'' @ [NL])) (Inr JNull)" "github_config ''t0k''"]
    d1 d2
  show ?thesis by simp
qed

section \<open>Empty listings\<close>

lemma list_repos_result_text:
  assumes "list_repos_result v = Inr r"
  shows "content r \<noteq> [TextBlock ''No repositories found.'']"
  using assms
  by (cases v) (auto simp: list_repos_result_def thenE_def Let_def split: sum.splits)

text \<open>
  C10: When the remote returns an empty array, list_repos returns a success whose text is
  \<^verbatim>\<open>Found 0 repositories:\<close> followed by two newlines; no result of list_repos has the text
  \<^verbatim>\<open>No repositories found.\<close>, for every response; list_issues and list_branches on an
  empty array return the texts \<^verbatim>\<open>No issues found.\<close> and \<^verbatim>\<open>No branches found.\<close>
\<close>

theorem empty_listings:
  "(snd (list_repos w cfg org page per_page) = [c1] \<and> execSync w c1 = Inr b1
      \<and> JSON_parse w b1 = Inr (JArr [])
     \<longrightarrow> fst (list_repos w cfg org page per_page) =
       Inr \<lparr>content = [TextBlock (''Found 0 repositories:'' @ [NL, NL])], isError = False\<rparr>)
   \<and> (\<forall>r. fst (list_repos w cfg org page per_page) = Inr r
     \<longrightarrow> content r \<noteq> [TextBlock ''No repositories found.''])
   \<and> (snd (list_issues w cfg owner repo state page per_page) = [c2] \<and> execSync w c2 = Inr b2
      \<and> JSON_parse w b2 = Inr (JArr [])
     \<longrightarrow> fst (list_issues w cfg owner repo state page per_page) =
       Inr \<lparr>content = [TextBlock ''No issues found.''], isError = False\<rparr>)
   \<and> (snd (list_branches w cfg owner repo) = [c3] \<and> execSync w c3 = Inr b3
      \<and> JSON_parse w b3 = Inr (JArr [])
     \<longrightarrow> fst (list_branches w cfg owner repo) =
       Inr \<lparr>content = [TextBlock ''No branches found.''], isError = False\<rparr>)"
proof (intro conjI impI allI)
  assume "snd (list_repos w cfg org page per_page) = [c1] \<and> execSync w c1 = Inr b1
      \<and> JSON_parse w b1 = Inr (JArr [])"
  with handler_ran [of w cfg "List_repos org page per_page" c1]
  show "fst (list_repos w cfg org page per_page) =
       Inr \<lparr>content = [TextBlock (''Found 0 repositories:'' @ [NL, NL])], isError = False\<rparr>"
    by (simp add: list_repos_result_def)
next
  fix r
  assume "fst (list_repos w cfg org page per_page) = Inr r"
  then show "content r \<noteq> [TextBlock ''No repositories found.'']"
    by (auto simp: list_repos_def Let_def thenE_def dest: list_repos_result_text
        split: if_splits sum.splits)
next
  assume "snd (list_issues w cfg owner repo state page per_page) = [c2] \<and> execSync w c2 = Inr b2
      \<and> JSON_parse w b2 = Inr (JArr [])"
  with handler_ran [of w cfg "List_issues owner repo state page per_page" c2]
  show "fst (list_issues w cfg owner repo state page per_page) =
       Inr \<lparr>content = [TextBlock ''No issues found.''], isError = False\<rparr>"
    by (simp add: list_issues_result_def)
next
  assume "snd (list_branches w cfg owner repo) = [c3] \<and> execSync w c3 = Inr b3
      \<and> JSON_parse w b3 = Inr (JArr [])"
  with handler_ran [of w cfg "List_branches owner repo" c3]
  show "fst (list_branches w cfg owner repo) =
       Inr \<lparr>content = [TextBlock ''No branches found.''], isError = False\<rparr>"
    by (simp add: list_branches_result_def)
qed

theorem empty_listings_witness:
  "fst (list_repos (mock_world (Inr ''[]'') (Inr (JArr []))) (github_config ''t0k'')
        (Some ''acme'') None None) =
      Inr \<lparr>content = [TextBlock (''Found 0 repositories:'' @ [NL, NL])], isError = False\<rparr>
   \<and> content \<lparr>content = [TextBlock (''Found 0 repositories:'' @ [NL, NL])], isError = False\<rparr>
      \<noteq> [TextBlock ''No repositories found.'']
   \<and> fst (list_issues (mock_world (Inr ''[]'') (Inr (JArr []))) (github_config ''t0k'')
        ''acme'' ''widget'' None None None) =
      Inr \<lparr>content = [TextBlock ''No issues found.''], isError = False\<rparr>
   \<and> fst (list_branches (mock_world (Inr ''[]'') (Inr (JArr []))) (github_config ''t0k'')
        ''acme'' ''widget'') =
      Inr \<lparr>content = [TextBlock ''No branches found.''], isError = False\<rparr>"
proof -
  have 1: "snd (list_repos (mock_world (Inr ''[]'') (Inr (JArr []))) (github_config ''t0k'')
        (Some ''acme'') None None) =
      [curl_cmd ''GET''
        ''https://api.github.com/orgs/acme/repos?page=1&per_page=100&limit=100&type=all'' None ''t0k'' True]"
    by (simp add: list_repos_def apiCall_def curlRequest_def searchParams_toString_def Let_def
        str_or_def)
  have 2: "snd (list_issues (mock_world (Inr ''[]'') (Inr (JArr []))) (github_config ''t0k'')
        ''acme'' ''widget'' None None None) =
      [curl_cmd ''GET''
        ''https://api.github.com/repos/acme/widget/issues?state=open&page=1&per_page=20&limit=20'' None ''t0k'' True]"
    by (simp add: list_issues_def apiCall_def curlRequest_def searchParams_toString_def Let_def)
  have 3: "snd (list_branches (mock_world (Inr ''[]'') (Inr (JArr []))) (github_config ''t0k'')
        ''acme'' ''widget'') =
      [curl_cmd ''GET'' ''https://api.github.com/repos/acme/widget/branches'' None ''t0k'' True]"
    by (simp add: list_branches_def apiCall_def curlRequest_def Let_def)
  from empty_listings
    [where w = "mock_world (Inr ''[]'') (Inr (JArr []))" and cfg = "github_config ''t0k''"
      and org = "Some ''acme''" and page = None and per_page = None
      and owner = "''acme''" and repo = "''widget''" and state = None
      and ?b1.0 = "''[]''" and ?b2.0 = "''[]''" and ?b3.0 = "''[]''"
      and ?c1.0 = "curl_cmd ''GET''
        ''https://api.github.com/orgs/acme/repos?page=1&per_page=100&limit=100&type=all'' None ''t0k'' True"
      and ?c2.0 = "curl_cmd ''GET''
        ''https://api.github.com/repos/acme/widget/issues?state=open&page=1&per_page=20&limit=20'' None ''t0k'' True"
      and ?c3.0 = "curl_cmd ''GET'' ''https://api.github.com/repos/acme/widget/branches'' None ''t0k'' True"]
    1 2 3
  show ?thesis by simp
qed

end
